theory Spec2Isabelle
  imports Main "HOL-Library.AList" "HOL-Library.Sublist"
begin

section \<open>Python values, dictionaries and exceptions\<close>

text \<open>
  The report service of \<^verbatim>\<open>report-api/src/api/services/report_service.py\<close> is embedded
  function by function. Python values that a JSON request can carry are a datatype, a
  \<^verbatim>\<open>dict\<close> is an association list in insertion order, and \<^verbatim>\<open>bytes\<close> are lists of
  8-bit characters.
\<close>

datatype pyval =
    PNone
  | PBool bool
  | PInt int
  | PStr string
  | PList "pyval list"
  | PDict "(string \<times> pyval) list"

type_synonym dict = "(string \<times> pyval) list"
type_synonym bytes = string
type_synonym page = string
type_synonym template = string
type_synonym addr = nat
type_synonym form_file = "string \<times> string \<times> string \<times> string"

text \<open>Python's \<^verbatim>\<open>bool(x)\<close>.\<close>

fun truthy :: "pyval \<Rightarrow> bool" where
  "truthy PNone = False"
| "truthy (PBool b) = b"
| "truthy (PInt i) = (i \<noteq> 0)"
| "truthy (PStr s) = (s \<noteq> [])"
| "truthy (PList xs) = (xs \<noteq> [])"
| "truthy (PDict d) = (d \<noteq> [])"

text \<open>
  Exceptions are values. Every constructor stands for a subclass of Python's
  \<^verbatim>\<open>Exception\<close>, which is what the two \<^verbatim>\<open>except Exception\<close> handlers of the
  source catch.
\<close>

datatype exn =
    HTTPError nat
  | AttributeError
  | RequestException string
  | TemplateError string
  | PdfError string
  | PageCountError string
  | ChunkError string
  | TypeError

record response =
  status_code :: nat
  content :: bytes

section \<open>The world: calls made to collaborators, and the object store\<close>

datatype log_message =
    CouldNotOverlayFooter nat exn
  | CouldNotOverlayPageContent exn
  | ErrorOverlayingFooterPdfs exn

datatype event =
    HttpPost string "form_file list" "(string \<times> string) list"
  | ChunkCall "string option" "dict option" bool
  | ChunkCallValue pyval "dict option" bool
  | RenderTemplate template dict
  | LogWarning log_message
  | LogError log_message

text \<open>
  Dictionaries are objects: \<open>heap\<close> maps a reference to the dictionary stored there and
  \<open>next_free\<close> is the first reference not yet handed out, so that
  \<^verbatim>\<open>template_args.copy()\<close> and the item assignments that follow it are visible as
  writes to the store.
\<close>

record world =
  trace :: "event list"
  heap :: "addr \<Rightarrow> dict"
  next_free :: addr

text \<open>
  The collaborators the service calls but does not define: \<^verbatim>\<open>requests.post\<close>, the
  chunking service, the Jinja environment, the page counter of
  \<^verbatim>\<open>api.services.page_info\<close>, and pikepdf. Each is a parameter, a function of its
  arguments that either raises or returns.
\<close>

record env =
  config_gotenberg_url :: "string option"
  template_folder_path :: string
  http_post :: "string \<Rightarrow> form_file list \<Rightarrow> (string \<times> string) list \<Rightarrow> exn + response"
  create_chunk_report :: "string option \<Rightarrow> dict option \<Rightarrow> bool \<Rightarrow> exn + bytes"
  get_template :: "string \<Rightarrow> exn + template"
  render :: "template \<Rightarrow> dict \<Rightarrow> exn + string"
  get_pdf_page_count :: "bytes \<Rightarrow> exn + int"
  pdf_open :: "bytes \<Rightarrow> exn + page list"
  copy_foreign_page :: "page \<Rightarrow> exn + page"
  has_add_overlay :: bool
  add_overlay :: "page \<Rightarrow> page \<Rightarrow> exn + page"
  pdf_save :: "page list \<Rightarrow> exn + bytes"

section \<open>Computations that may raise and change the world\<close>

type_synonym 'a M = "world \<Rightarrow> (exn + 'a) \<times> world"

definition returnM :: "'a \<Rightarrow> 'a M" where
  "returnM x = (\<lambda>w. (Inr x, w))"

definition raiseM :: "exn \<Rightarrow> 'a M" where
  "raiseM e = (\<lambda>w. (Inl e, w))"

definition bindM :: "'a M \<Rightarrow> ('a \<Rightarrow> 'b M) \<Rightarrow> 'b M" where
  "bindM m f = (\<lambda>w. case m w of (Inl e, w') \<Rightarrow> (Inl e, w') | (Inr x, w') \<Rightarrow> f x w')"

text \<open>\<^verbatim>\<open>try: m except Exception as e: h e\<close>; what \<open>m\<close> did before raising stays done.\<close>

definition tryM :: "'a M \<Rightarrow> (exn \<Rightarrow> 'a M) \<Rightarrow> 'a M" where
  "tryM m h = (\<lambda>w. case m w of (Inl e, w') \<Rightarrow> h e w' | (Inr x, w') \<Rightarrow> (Inr x, w'))"

definition emit :: "event \<Rightarrow> unit M" where
  "emit ev = (\<lambda>w. (Inr (), w\<lparr>trace := trace w @ [ev]\<rparr>))"

definition liftM :: "exn + 'a \<Rightarrow> 'a M" where
  "liftM r = (\<lambda>w. (r, w))"

subsection \<open>Dictionary objects\<close>

definition dict_copy :: "addr \<Rightarrow> addr M" where
  "dict_copy a = (\<lambda>w. (Inr (next_free w),
      w\<lparr>heap := (heap w)(next_free w := heap w a), next_free := Suc (next_free w)\<rparr>))"

definition dict_setitem :: "addr \<Rightarrow> string \<Rightarrow> pyval \<Rightarrow> unit M" where
  "dict_setitem a k v = (\<lambda>w. (Inr (), w\<lparr>heap := (heap w)(a := AList.update k v (heap w a))\<rparr>))"

text \<open>\<^verbatim>\<open>(template_args or {})\<close>: \<^verbatim>\<open>None\<close> and the empty dictionary both give \<^verbatim>\<open>{}\<close>.\<close>

definition args_or_empty :: "world \<Rightarrow> addr option \<Rightarrow> dict" where
  "args_or_empty w template_args =
     (case template_args of None \<Rightarrow> [] | Some a \<Rightarrow> (if heap w a = [] then [] else heap w a))"

definition deref_opt :: "world \<Rightarrow> addr option \<Rightarrow> dict option" where
  "deref_opt w template_args = map_option (heap w) template_args"

subsection \<open>Calls to the collaborators\<close>

definition requests_post ::
  "env \<Rightarrow> string \<Rightarrow> form_file list \<Rightarrow> (string \<times> string) list \<Rightarrow> response M" where
  "requests_post env endpoint files form_data =
     bindM (emit (HttpPost endpoint files form_data))
       (\<lambda>_. liftM (http_post env endpoint files form_data))"

text \<open>
  \<^verbatim>\<open>Response.raise_for_status()\<close> of the requests library raises \<^verbatim>\<open>HTTPError\<close> for a
  status from 400 to 599 and returns for every other status.
\<close>

definition raise_for_status :: "response \<Rightarrow> unit M" where
  "raise_for_status resp =
     (if 400 \<le> status_code resp \<and> status_code resp < 600
      then raiseM (HTTPError (status_code resp)) else returnM ())"

definition chunk_report_call :: "env \<Rightarrow> string option \<Rightarrow> addr option \<Rightarrow> bool \<Rightarrow> bytes M" where
  "chunk_report_call env template_name template_args generate_page_number = (\<lambda>w.
     bindM (emit (ChunkCall template_name (deref_opt w template_args) generate_page_number))
       (\<lambda>_. liftM (create_chunk_report env template_name (deref_opt w template_args)
                     generate_page_number)) w)"

definition render_template :: "env \<Rightarrow> template \<Rightarrow> addr \<Rightarrow> string M" where
  "render_template env t a = (\<lambda>w.
     bindM (emit (RenderTemplate t (heap w a))) (\<lambda>_. liftM (render env t (heap w a))) w)"

definition log_warning :: "log_message \<Rightarrow> unit M" where
  "log_warning m = emit (LogWarning m)"

definition log_error :: "log_message \<Rightarrow> unit M" where
  "log_error m = emit (LogError m)"

section \<open>ReportService\<close>

subsection \<open>The routing conditions of \<^verbatim>\<open>_finalize_pdf\<close>\<close>

text \<open>\<^verbatim>\<open>needle in s\<close> on strings.\<close>

fun str_contains :: "string \<Rightarrow> string \<Rightarrow> bool" where
  "str_contains needle [] = (needle = [])"
| "str_contains needle (c # cs) = (prefix needle (c # cs) \<or> str_contains needle cs)"

text \<open>\<^verbatim>\<open>'statement_report' in (template_name or '')\<close>\<close>

definition is_statement :: "string option \<Rightarrow> bool" where
  "is_statement template_name =
     str_contains ''statement_report''
       (case template_name of None \<Rightarrow> [] | Some s \<Rightarrow> (if s = [] then [] else s))"

text \<open>\<^verbatim>\<open>bool((template_args or {}).get('groupedInvoices'))\<close>\<close>

definition has_grouped_invoices :: "world \<Rightarrow> addr option \<Rightarrow> bool" where
  "has_grouped_invoices w template_args =
     truthy (case map_of (args_or_empty w template_args) ''groupedInvoices'' of
               None \<Rightarrow> PNone | Some v \<Rightarrow> v)"

subsection \<open>\<^verbatim>\<open>generate_pdf\<close> and \<^verbatim>\<open>generate_single_footer_pdf\<close>\<close>

definition gotenberg_endpoint :: "env \<Rightarrow> string" where
  "gotenberg_endpoint env =
     (case config_gotenberg_url env of None \<Rightarrow> ''http://localhost:3000'' | Some u \<Rightarrow> u)
       @ ''/forms/chromium/convert/html''"

definition generate_pdf :: "env \<Rightarrow> string \<Rightarrow> bool \<Rightarrow> string option \<Rightarrow> bytes M" where
  "generate_pdf env html_out generate_page_number footer_html =
     (let endpoint = gotenberg_endpoint env;
          files = [(''files'', ''index.html'', html_out, ''text/html'')];
          form_data = [];
          (files, form_data) =
             (case footer_html of
                None \<Rightarrow> (files, form_data)
              | Some f \<Rightarrow>
                  if generate_page_number \<and> f \<noteq> []
                  then (files @ [(''files'', ''footer.html'', f, ''text/html'')],
                        AList.update ''footer'' ''footer.html'' form_data)
                  else (files, form_data))
      in bindM (requests_post env endpoint files form_data) (\<lambda>resp.
         bindM (raise_for_status resp) (\<lambda>_.
         returnM (content resp))))"

definition generate_single_footer_pdf ::
  "env \<Rightarrow> template \<Rightarrow> addr option \<Rightarrow> int \<Rightarrow> int \<Rightarrow> bytes M" where
  "generate_single_footer_pdf env footer_template template_args current_page total_pages =
     (let endpoint = gotenberg_endpoint env in
      case template_args of
        None \<Rightarrow> raiseM AttributeError
      | Some a \<Rightarrow>
          bindM (dict_copy a) (\<lambda>page_args.
          bindM (dict_setitem page_args ''current_page'' (PInt current_page)) (\<lambda>_.
          bindM (dict_setitem page_args ''total_pages'' (PInt total_pages)) (\<lambda>_.
          bindM (render_template env footer_template page_args) (\<lambda>footer_html.
          let empty_html = ''<!DOCTYPE html>'';
              files = [(''files'', ''index.html'', empty_html, ''text/html''),
                       (''files'', ''footer.html'', footer_html, ''text/html'')];
              form_data = [(''footer'', ''footer.html'')]
          in bindM (requests_post env endpoint files form_data) (\<lambda>resp.
             bindM (raise_for_status resp) (\<lambda>_.
             returnM (content resp))))))))"

subsection \<open>The multi-pass flow\<close>

text \<open>The loop \<^verbatim>\<open>for i in range(total_pages)\<close> of \<^verbatim>\<open>_generate_footer_pdfs\<close>.\<close>

fun footer_loop ::
  "env \<Rightarrow> template \<Rightarrow> addr option \<Rightarrow> int \<Rightarrow> nat list \<Rightarrow> bytes list \<Rightarrow> bytes list M" where
  "footer_loop env footer_template template_args total_pages [] footer_pdfs =
     returnM footer_pdfs"
| "footer_loop env footer_template template_args total_pages (i # rest) footer_pdfs =
     bindM (generate_single_footer_pdf env footer_template template_args (int i + 1) total_pages)
       (\<lambda>footer_pdf.
          footer_loop env footer_template template_args total_pages rest
            (footer_pdfs @ [footer_pdf]))"

definition generate_footer_pdfs :: "env \<Rightarrow> addr option \<Rightarrow> int \<Rightarrow> bytes list M" where
  "generate_footer_pdfs env template_args total_pages =
     bindM (liftM (get_template env (template_folder_path env @ ''/statement_footer.html'')))
       (\<lambda>footer_template.
          footer_loop env footer_template template_args total_pages [0..<nat total_pages] [])"

text \<open>
  \<^verbatim>\<open>_overlay_page_content\<close> changes \<^verbatim>\<open>base_page\<close> in place and returns nothing; the
  model returns the page as it is afterwards. pikepdf's \<^verbatim>\<open>add_overlay\<close> either raises,
  and then the page is as before, or gives the overlaid page.
\<close>

definition overlay_page_content :: "env \<Rightarrow> page \<Rightarrow> page \<Rightarrow> page M" where
  "overlay_page_content env base_page overlay_page =
     tryM (if has_add_overlay env
           then liftM (add_overlay env base_page overlay_page)
           else returnM base_page)
          (\<lambda>e. bindM (log_warning (CouldNotOverlayPageContent e)) (\<lambda>_. returnM base_page))"

text \<open>
  One round of the loop over \<^verbatim>\<open>enumerate(main_pdf.pages)\<close>: the main page is copied
  to the end of the result document, and the footer at the same index, if there is one,
  is opened and laid over the copy. The source appends the copy and then changes the last
  page of the result in place; here the page is appended as it is after the change.
\<close>

definition overlay_one :: "env \<Rightarrow> bytes list \<Rightarrow> nat \<Rightarrow> page \<Rightarrow> page list \<Rightarrow> page list M" where
  "overlay_one env footer_pdfs i main_page result_pages =
     bindM (liftM (copy_foreign_page env main_page)) (\<lambda>new_page.
       if i < length footer_pdfs then
         tryM (bindM (liftM (pdf_open env (footer_pdfs ! i))) (\<lambda>footer_pages.
                 if length footer_pages > 0
                 then bindM (overlay_page_content env new_page (footer_pages ! 0))
                        (\<lambda>p. returnM (result_pages @ [p]))
                 else returnM (result_pages @ [new_page])))
              (\<lambda>e. bindM (log_warning (CouldNotOverlayFooter (i + 1) e))
                      (\<lambda>_. returnM (result_pages @ [new_page])))
       else returnM (result_pages @ [new_page]))"

fun overlay_loop :: "env \<Rightarrow> bytes list \<Rightarrow> nat \<Rightarrow> page list \<Rightarrow> page list \<Rightarrow> page list M" where
  "overlay_loop env footer_pdfs i [] result_pages = returnM result_pages"
| "overlay_loop env footer_pdfs i (main_page # rest) result_pages =
     bindM (overlay_one env footer_pdfs i main_page result_pages)
       (\<lambda>result_pages'. overlay_loop env footer_pdfs (Suc i) rest result_pages')"

text \<open>The body of the outer \<^verbatim>\<open>try\<close> of \<^verbatim>\<open>_overlay_footer_pdfs_on_main_pdf\<close>.\<close>

definition overlay_body :: "env \<Rightarrow> bytes \<Rightarrow> bytes list \<Rightarrow> bytes M" where
  "overlay_body env main_pdf_bytes footer_pdfs =
     bindM (liftM (pdf_open env main_pdf_bytes)) (\<lambda>main_pages.
     bindM (overlay_loop env footer_pdfs 0 main_pages []) (\<lambda>result_pages.
     liftM (pdf_save env result_pages)))"

definition overlay_footer_pdfs_on_main_pdf :: "env \<Rightarrow> bytes \<Rightarrow> bytes list \<Rightarrow> bytes M" where
  "overlay_footer_pdfs_on_main_pdf env main_pdf_bytes footer_pdfs =
     tryM (overlay_body env main_pdf_bytes footer_pdfs)
          (\<lambda>e. bindM (log_error (ErrorOverlayingFooterPdfs e)) (\<lambda>_. returnM main_pdf_bytes))"

definition generate_pdf_with_page_numbers ::
  "env \<Rightarrow> string option \<Rightarrow> addr option \<Rightarrow> string \<Rightarrow> bytes M" where
  "generate_pdf_with_page_numbers env template_name template_args html_out =
     bindM (generate_pdf env html_out False None) (\<lambda>first_pass_pdf.
     bindM (liftM (get_pdf_page_count env first_pass_pdf)) (\<lambda>total_pages.
     bindM (generate_footer_pdfs env template_args total_pages) (\<lambda>footer_pdfs.
     overlay_footer_pdfs_on_main_pdf env first_pass_pdf footer_pdfs)))"

subsection \<open>The router\<close>

definition finalize_pdf ::
  "env \<Rightarrow> string option \<Rightarrow> addr option \<Rightarrow> string \<Rightarrow> bool \<Rightarrow> bytes M" where
  "finalize_pdf env template_name template_args html_out generate_page_number = (\<lambda>w.
     let is_stmt = is_statement template_name;
         has_grouped = has_grouped_invoices w template_args;
         footer_html = None
     in if is_stmt \<and> has_grouped
        then chunk_report_call env template_name template_args generate_page_number w
        else if is_stmt \<and> generate_page_number
        then generate_pdf_with_page_numbers env template_name template_args html_out w
        else generate_pdf env html_out generate_page_number footer_html w)"

subsection \<open>\<^verbatim>\<open>create_report_from_template\<close>\<close>

text \<open>
  What \<^verbatim>\<open>create_report_from_template\<close> calls and does not define: base64 and UTF-8
  decoding, the sandboxed Jinja environment, and the chunking service as it is called
  with a report name that is not a string.
\<close>

record sandbox =
  b64decode_utf8 :: "string \<Rightarrow> exn + string"
  sandbox_from_string :: "string \<Rightarrow> exn + template"
  sandbox_render :: "template \<Rightarrow> dict \<Rightarrow> exn + string"
  create_chunk_report_value :: "pyval \<Rightarrow> dict option \<Rightarrow> bool \<Rightarrow> exn + bytes"

text \<open>
  \<^verbatim>\<open>template_.render(template_args)\<close>: Jinja builds \<^verbatim>\<open>dict(template_args)\<close> first, which
  raises \<^verbatim>\<open>TypeError\<close> for \<^verbatim>\<open>None\<close>.
\<close>

definition render_sandboxed :: "sandbox \<Rightarrow> template \<Rightarrow> addr option \<Rightarrow> string M" where
  "render_sandboxed sb t template_args =
     (case template_args of
        None \<Rightarrow> raiseM TypeError
      | Some a \<Rightarrow> (\<lambda>w.
          bindM (emit (RenderTemplate t (heap w a)))
            (\<lambda>_. liftM (sandbox_render sb t (heap w a))) w))"

text \<open>
  \<^verbatim>\<open>report_name = (template_args or {}).get('reportName', '')\<close>
\<close>

definition report_name :: "world \<Rightarrow> addr option \<Rightarrow> pyval" where
  "report_name w template_args =
     (case map_of (args_or_empty w template_args) ''reportName'' of
        None \<Rightarrow> PStr [] | Some v \<Rightarrow> v)"

text \<open>
  The report name is whatever value the arguments hold, and is passed to
  \<^verbatim>\<open>_finalize_pdf\<close> as the template name. A string or \<^verbatim>\<open>None\<close> is a template name as
  \<^verbatim>\<open>_finalize_pdf\<close> declares it. For any other value the same lines 69 to 86 run:
  \<^verbatim>\<open>'statement_report' in (template_name or '')\<close> is false for a false value, raises
  \<^verbatim>\<open>TypeError\<close> for a true \<^verbatim>\<open>bool\<close> or a non-zero \<^verbatim>\<open>int\<close>, and is membership in a list
  or among the keys of a dictionary.
\<close>

fun is_statement_value :: "pyval \<Rightarrow> exn + bool" where
  "is_statement_value PNone = Inr (is_statement None)"
| "is_statement_value (PStr s) = Inr (is_statement (Some s))"
| "is_statement_value (PBool b) = (if b then Inl TypeError else Inr False)"
| "is_statement_value (PInt i) = (if i \<noteq> 0 then Inl TypeError else Inr False)"
| "is_statement_value (PList xs) = Inr (PStr ''statement_report'' \<in> set xs)"
| "is_statement_value (PDict d) = Inr (''statement_report'' \<in> fst ` set d)"

definition chunk_value_call :: "sandbox \<Rightarrow> pyval \<Rightarrow> addr option \<Rightarrow> bool \<Rightarrow> bytes M" where
  "chunk_value_call sb template_name template_args generate_page_number = (\<lambda>w.
     bindM (emit (ChunkCallValue template_name (deref_opt w template_args)
                    generate_page_number))
       (\<lambda>_. liftM (create_chunk_report_value sb template_name (deref_opt w template_args)
                     generate_page_number)) w)"

text \<open>
  \<^verbatim>\<open>_finalize_pdf\<close> on a template name of any type. The multi-pass flow does not use
  the name it is given.
\<close>

definition finalize_pdf_value ::
  "env \<Rightarrow> sandbox \<Rightarrow> pyval \<Rightarrow> addr option \<Rightarrow> string \<Rightarrow> bool \<Rightarrow> bytes M" where
  "finalize_pdf_value env sb template_name template_args html_out generate_page_number =
     (case template_name of
        PNone \<Rightarrow> finalize_pdf env None template_args html_out generate_page_number
      | PStr s \<Rightarrow> finalize_pdf env (Some s) template_args html_out generate_page_number
      | v \<Rightarrow> (\<lambda>w.
          case is_statement_value v of
            Inl e \<Rightarrow> (Inl e, w)
          | Inr is_stmt \<Rightarrow>
              if is_stmt \<and> has_grouped_invoices w template_args
              then chunk_value_call sb v template_args generate_page_number w
              else if is_stmt \<and> generate_page_number
              then generate_pdf_with_page_numbers env None template_args html_out w
              else generate_pdf env html_out generate_page_number None w))"

definition create_report_from_template ::
  "env \<Rightarrow> sandbox \<Rightarrow> string \<Rightarrow> addr option \<Rightarrow> bool \<Rightarrow> bytes M" where
  "create_report_from_template env sb template_string template_args generate_page_number =
     bindM (liftM (b64decode_utf8 sb template_string)) (\<lambda>template_decoded.
     bindM (liftM (sandbox_from_string sb template_decoded)) (\<lambda>template.
     bindM (render_sandboxed sb template template_args) (\<lambda>html_out. (\<lambda>w.
       finalize_pdf_value env sb (report_name w template_args) template_args html_out
         generate_page_number w))))"

section \<open>Descriptions of single calls\<close>

text \<open>
  The dictionary \<^verbatim>\<open>page_args\<close> that \<^verbatim>\<open>generate_single_footer_pdf\<close> renders the footer
  from: the caller's entries with \<^verbatim>\<open>current_page\<close> and \<^verbatim>\<open>total_pages\<close> set, in that
  order.
\<close>

definition page_context :: "dict \<Rightarrow> int \<Rightarrow> int \<Rightarrow> dict" where
  "page_context d current_page total_pages =
     AList.update ''total_pages'' (PInt total_pages)
       (AList.update ''current_page'' (PInt current_page) d)"

text \<open>
  The two file parts of a footer request: an empty primary document and the footer.
\<close>

definition footer_files :: "string \<Rightarrow> form_file list" where
  "footer_files footer_html =
     [(''files'', ''index.html'', ''<!DOCTYPE html>'', ''text/html''),
      (''files'', ''footer.html'', footer_html, ''text/html'')]"

text \<open>
  What one footer request returns for a given context: the template is rendered, the
  request is posted, and \<^verbatim>\<open>raise_for_status\<close> decides between the error and the bytes.
  It is shown below to be the result of \<^verbatim>\<open>generate_single_footer_pdf\<close>.
\<close>

definition footer_pdf_of :: "env \<Rightarrow> template \<Rightarrow> dict \<Rightarrow> exn + bytes" where
  "footer_pdf_of env ft ctx =
     (case render env ft ctx of
        Inl e \<Rightarrow> Inl e
      | Inr h \<Rightarrow>
          (case http_post env (gotenberg_endpoint env) (footer_files h)
                  [(''footer'', ''footer.html'')] of
             Inl e \<Rightarrow> Inl e
           | Inr r \<Rightarrow>
               if 400 \<le> status_code r \<and> status_code r < 600
               then Inl (HTTPError (status_code r)) else Inr (content r)))"

text \<open>
  The calls one footer request makes: the render, and the post when the render returned.
\<close>

definition footer_events :: "env \<Rightarrow> template \<Rightarrow> dict \<Rightarrow> event list" where
  "footer_events env ft ctx =
     RenderTemplate ft ctx #
       (case render env ft ctx of
          Inl e \<Rightarrow> []
        | Inr h \<Rightarrow> [HttpPost (gotenberg_endpoint env) (footer_files h)
                      [(''footer'', ''footer.html'')]])"

text \<open>
  Reading a trace: the contexts of the template renders, and the requests posted to the
  renderer, each in the order of the calls.
\<close>

fun rendered_contexts :: "event list \<Rightarrow> dict list" where
  "rendered_contexts [] = []"
| "rendered_contexts (RenderTemplate t d # evs) = d # rendered_contexts evs"
| "rendered_contexts (ev # evs) = rendered_contexts evs"

fun http_posts :: "event list \<Rightarrow> (form_file list \<times> (string \<times> string) list) list" where
  "http_posts [] = []"
| "http_posts (HttpPost ep files form_data # evs) = (files, form_data) # http_posts evs"
| "http_posts (ev # evs) = http_posts evs"

text \<open>
  The page that one round of the overlay loop leaves in the result document for the
  copied page \<open>new_page\<close> at index \<open>i\<close>, and the warnings the round logs. Both follow the
  branches of the source; they are shown below to describe \<open>overlay_one\<close>.
\<close>

definition overlaid :: "env \<Rightarrow> bytes list \<Rightarrow> nat \<Rightarrow> page \<Rightarrow> page" where
  "overlaid env footer_pdfs i new_page =
     (if i < length footer_pdfs then
        (case pdf_open env (footer_pdfs ! i) of
           Inl e \<Rightarrow> new_page
         | Inr footer_pages \<Rightarrow>
             (case footer_pages of
                [] \<Rightarrow> new_page
              | footer_page # _ \<Rightarrow>
                  if has_add_overlay env
                  then (case add_overlay env new_page footer_page of
                          Inl e \<Rightarrow> new_page | Inr p \<Rightarrow> p)
                  else new_page))
      else new_page)"

definition overlay_logs :: "env \<Rightarrow> bytes list \<Rightarrow> nat \<Rightarrow> page \<Rightarrow> event list" where
  "overlay_logs env footer_pdfs i new_page =
     (if i < length footer_pdfs then
        (case pdf_open env (footer_pdfs ! i) of
           Inl e \<Rightarrow> [LogWarning (CouldNotOverlayFooter (i + 1) e)]
         | Inr footer_pages \<Rightarrow>
             (case footer_pages of
                [] \<Rightarrow> []
              | footer_page # _ \<Rightarrow>
                  if has_add_overlay env
                  then (case add_overlay env new_page footer_page of
                          Inl e \<Rightarrow> [LogWarning (CouldNotOverlayPageContent e)] | Inr p \<Rightarrow> [])
                  else []))
      else [])"

section \<open>Collaborators for concrete runs\<close>

text \<open>
  Deterministic collaborators for concrete runs. A document has one page per byte, the
  renderer answers a direct render with the two-page document \<open>AB\<close> and a footer
  request with the footer markup as the footer document, overlaying appends the footer's
  content to the page, and a few marked inputs make each library call fail.
\<close>

definition stub_env :: env where
  "stub_env = \<lparr>
     config_gotenberg_url = None,
     template_folder_path = ''templates'',
     http_post = (\<lambda>endpoint files form_data.
        if length files = 1 then Inr \<lparr>status_code = 200, content = ''AB''\<rparr>
        else Inr \<lparr>status_code = 200, content = fst (snd (snd (files ! 1)))\<rparr>),
     create_chunk_report = (\<lambda>template_name template_args gpn. Inr ''chunked''),
     get_template = (\<lambda>name. Inr name),
     render = (\<lambda>t d. case map_of d ''current_page'' of
                        Some (PInt k) \<Rightarrow> Inr (if k = 1 then ''1'' else ''2'')
                      | _ \<Rightarrow> Inl (TemplateError ''current_page'')),
     get_pdf_page_count = (\<lambda>b. Inr (int (length b))),
     pdf_open = (\<lambda>b. if b = ''!'' then Inl (PdfError ''not a PDF'')
                     else Inr (map (\<lambda>c. [c]) b)),
     copy_foreign_page = (\<lambda>p. if p = ''Y'' then Inl (PdfError ''foreign'') else Inr p),
     has_add_overlay = True,
     add_overlay = (\<lambda>b ov. if ov = ''x'' then Inl (PdfError ''overlay'') else Inr (b @ ov)),
     pdf_save = (\<lambda>ps. if ''Z'' \<in> set ps then Inl (PdfError ''save'') else Inr (concat ps))
   \<rparr>"

text \<open>
  A renderer whose first pass has no pages: the page counter gives 0, the document opens
  with no pages, and saving the empty result document gives the bytes the PDF library
  writes, which are not the renderer's.
\<close>

definition zero_page_env :: env where
  "zero_page_env = stub_env\<lparr>
     http_post := (\<lambda>endpoint files form_data.
        Inr \<lparr>status_code = 200, content = ''%PDF-1.7 chromium''\<rparr>),
     get_pdf_page_count := (\<lambda>b. Inr 0),
     pdf_open := (\<lambda>b. Inr []),
     pdf_save := (\<lambda>ps. Inr ''%PDF-1.7 qpdf'')\<rparr>"

text \<open>
  An upstream that answers every request with status 304.
\<close>

definition not_modified_env :: env where
  "not_modified_env = stub_env\<lparr>
     http_post := (\<lambda>endpoint files form_data.
        Inr \<lparr>status_code = 304, content = ''not modified''\<rparr>)\<rparr>"

text \<open>
  A sandbox that decodes one template, renders it to one paragraph, and a chunking
  service for names that are not strings.
\<close>

definition stub_sandbox :: sandbox where
  "stub_sandbox = \<lparr>
     b64decode_utf8 = (\<lambda>s. if s = ''PHAvPg=='' then Inr ''<p/>''
                           else Inl (TemplateError ''not base64'')),
     sandbox_from_string = (\<lambda>s. Inr s),
     sandbox_render = (\<lambda>t d. Inr t),
     create_chunk_report_value = (\<lambda>template_name template_args gpn. Inr ''chunked'')
   \<rparr>"

text \<open>
  A world with two dictionaries: one with grouped invoices at reference 0 and one
  without at reference 1.
\<close>

definition w0 :: world where
  "w0 = \<lparr>trace = [],
         heap = (\<lambda>a. if a = 0 then [(''groupedInvoices'', PList [PInt 7])]
                     else if a = 1 then [(''accountName'', PStr ''Acme'')]
                     else []),
         next_free = 2\<rparr>"

section \<open>Running the computations\<close>

lemma bindM_apply:
  "bindM m f w = (case m w of (Inl e, w') \<Rightarrow> (Inl e, w') | (Inr x, w') \<Rightarrow> f x w')"
  by (simp add: bindM_def)

lemma tryM_apply:
  "tryM m h w = (case m w of (Inl e, w') \<Rightarrow> h e w' | (Inr x, w') \<Rightarrow> (Inr x, w'))"
  by (simp add: tryM_def)

lemma returnM_apply [simp]: "returnM x w = (Inr x, w)"
  by (simp add: returnM_def)

lemma raiseM_apply [simp]: "raiseM e w = (Inl e, w)"
  by (simp add: raiseM_def)

lemma liftM_apply [simp]: "liftM r w = (r, w)"
  by (simp add: liftM_def)

lemma emit_apply [simp]: "emit ev w = (Inr (), w\<lparr>trace := trace w @ [ev]\<rparr>)"
  by (simp add: emit_def)

lemma rendered_contexts_append [simp]:
  "rendered_contexts (xs @ ys) = rendered_contexts xs @ rendered_contexts ys"
  by (induction xs rule: rendered_contexts.induct) simp_all

lemma http_posts_append [simp]:
  "http_posts (xs @ ys) = http_posts xs @ http_posts ys"
  by (induction xs rule: http_posts.induct) simp_all

lemma page_context_lookup:
  "map_of (page_context d k n) ''current_page'' = Some (PInt k)"
  "map_of (page_context d k n) ''total_pages'' = Some (PInt n)"
  by (simp_all add: page_context_def update_conv')

lemma upt_two: "[0..<2] = [0, Suc 0]"
  by (simp add: upt_rec)

subsection \<open>Rendering\<close>

text \<open>
  One footer request, in full: its result, the calls it makes, and the one object it
  creates.
\<close>

lemma generate_single_footer_pdf_run:
  "generate_single_footer_pdf env ft (Some a) k n w =
     (footer_pdf_of env ft (page_context (heap w a) k n),
      w\<lparr>trace := trace w @ footer_events env ft (page_context (heap w a) k n),
        heap := (heap w)(next_free w := page_context (heap w a) k n),
        next_free := Suc (next_free w)\<rparr>)"
  by (simp add: generate_single_footer_pdf_def footer_pdf_of_def footer_events_def
      footer_files_def page_context_def dict_copy_def dict_setitem_def render_template_def
      requests_post_def raise_for_status_def bindM_apply Let_def split: sum.splits)

lemma generate_single_footer_pdf_None:
  "generate_single_footer_pdf env ft None k n w = (Inl AttributeError, w)"
  by (simp add: generate_single_footer_pdf_def)

text \<open>
  One direct render, in full.
\<close>

lemma generate_pdf_run:
  "generate_pdf env html_out gpn footer_html w =
     (let two = (gpn \<and> footer_html \<noteq> None \<and> footer_html \<noteq> Some []);
          files = (''files'', ''index.html'', html_out, ''text/html'') #
                  (if two then [(''files'', ''footer.html'', the footer_html, ''text/html'')] else []);
          form_data = (if two then [(''footer'', ''footer.html'')] else [])
      in ((case http_post env (gotenberg_endpoint env) files form_data of
             Inl e \<Rightarrow> Inl e
           | Inr r \<Rightarrow> if 400 \<le> status_code r \<and> status_code r < 600
                      then Inl (HTTPError (status_code r)) else Inr (content r)),
          w\<lparr>trace := trace w @ [HttpPost (gotenberg_endpoint env) files form_data]\<rparr>))"
proof (cases footer_html)
  case None
  then show ?thesis
    by (cases "http_post env (gotenberg_endpoint env)
                 [(''files'', ''index.html'', html_out, ''text/html'')] []")
       (simp_all add: generate_pdf_def requests_post_def raise_for_status_def bindM_apply)
next
  case (Some f)
  show ?thesis
  proof (cases "gpn \<and> f \<noteq> []")
    case True
    then show ?thesis
      by (cases "http_post env (gotenberg_endpoint env)
                   [(''files'', ''index.html'', html_out, ''text/html''),
                    (''files'', ''footer.html'', f, ''text/html'')]
                   [(''footer'', ''footer.html'')]")
         (simp_all add: Some generate_pdf_def requests_post_def raise_for_status_def bindM_apply)
  next
    case False
    then show ?thesis
      by (cases "http_post env (gotenberg_endpoint env)
                   [(''files'', ''index.html'', html_out, ''text/html'')] []")
         (auto simp add: Some generate_pdf_def requests_post_def raise_for_status_def bindM_apply)
  qed
qed

lemma footer_loop_frame:
  "b < next_free w \<Longrightarrow>
     heap (snd (footer_loop env ft targs n idxs acc w)) b = heap w b
     \<and> next_free w \<le> next_free (snd (footer_loop env ft targs n idxs acc w))"
proof (induction idxs arbitrary: acc w)
  case Nil
  then show ?case by simp
next
  case (Cons i rest)
  show ?case
  proof (cases targs)
    case None
    then show ?thesis
      by (simp add: bindM_apply generate_single_footer_pdf_None)
  next
    case (Some a)
    let ?w1 = "snd (generate_single_footer_pdf env ft (Some a) (int i + 1) n w)"
    have w1: "heap ?w1 b = heap w b" "next_free ?w1 = Suc (next_free w)"
      using Cons.prems by (simp_all add: generate_single_footer_pdf_run)
    have b1: "b < next_free ?w1" using Cons.prems w1 by simp
    show ?thesis
    proof (cases "footer_pdf_of env ft (page_context (heap w a) (int i + 1) n)")
      case (Inl e)
      then show ?thesis using Cons.prems
        by (simp add: Some bindM_apply generate_single_footer_pdf_run)
    next
      case (Inr doc)
      have step: "footer_loop env ft targs n (i # rest) acc w
                  = footer_loop env ft targs n rest (acc @ [doc]) ?w1"
        using Inr by (simp add: Some bindM_apply generate_single_footer_pdf_run)
      from Cons.IH [OF b1, of "acc @ [doc]"] w1 show ?thesis
        unfolding step by simp
    qed
  qed
qed

lemma footer_loop_run:
  assumes "a < next_free w"
    and "\<forall>i\<in>set idxs. \<exists>doc. footer_pdf_of env ft (page_context (heap w a) (int i + 1) n) = Inr doc"
  shows "\<exists>docs w'. footer_loop env ft (Some a) n idxs acc w = (Inr (acc @ docs), w')
      \<and> map Inr docs = map (\<lambda>i. footer_pdf_of env ft (page_context (heap w a) (int i + 1) n)) idxs
      \<and> rendered_contexts (trace w')
          = rendered_contexts (trace w) @ map (\<lambda>i. page_context (heap w a) (int i + 1) n) idxs
      \<and> length (http_posts (trace w')) = length (http_posts (trace w)) + length idxs"
  using assms
proof (induction idxs arbitrary: acc w)
  case Nil
  then show ?case by simp
next
  case (Cons i rest)
  let ?ctx = "page_context (heap w a) (int i + 1) n"
  from Cons.prems obtain doc where doc: "footer_pdf_of env ft ?ctx = Inr doc" by auto
  then obtain h where h: "render env ft ?ctx = Inr h"
    by (auto simp: footer_pdf_of_def split: sum.splits)
  let ?w1 = "w\<lparr>trace := trace w @ footer_events env ft ?ctx,
               heap := (heap w)(next_free w := ?ctx), next_free := Suc (next_free w)\<rparr>"
  have step: "footer_loop env ft (Some a) n (i # rest) acc w
              = footer_loop env ft (Some a) n rest (acc @ [doc]) ?w1"
    using doc by (simp add: bindM_apply generate_single_footer_pdf_run)
  have a1: "a < next_free ?w1" and ha: "heap ?w1 a = heap w a"
    using Cons.prems by simp_all
  have rest: "\<forall>j\<in>set rest. \<exists>d. footer_pdf_of env ft (page_context (heap ?w1 a) (int j + 1) n) = Inr d"
    using Cons.prems ha by simp
  from Cons.IH [OF a1 rest, of "acc @ [doc]"] obtain docs w' where
    r: "footer_loop env ft (Some a) n rest (acc @ [doc]) ?w1 = (Inr ((acc @ [doc]) @ docs), w')"
       "map Inr docs = map (\<lambda>j. footer_pdf_of env ft (page_context (heap ?w1 a) (int j + 1) n)) rest"
       "rendered_contexts (trace w')
          = rendered_contexts (trace ?w1) @ map (\<lambda>j. page_context (heap ?w1 a) (int j + 1) n) rest"
       "length (http_posts (trace w')) = length (http_posts (trace ?w1)) + length rest"
    by blast
  have "footer_loop env ft (Some a) n (i # rest) acc w = (Inr (acc @ (doc # docs)), w')"
    using step r(1) by simp
  moreover have "map Inr (doc # docs)
      = map (\<lambda>j. footer_pdf_of env ft (page_context (heap w a) (int j + 1) n)) (i # rest)"
    using r(2) doc ha by simp
  moreover have "rendered_contexts (trace w')
      = rendered_contexts (trace w) @ map (\<lambda>j. page_context (heap w a) (int j + 1) n) (i # rest)"
    using r(3) ha h by (simp add: footer_events_def)
  moreover have "length (http_posts (trace w')) = length (http_posts (trace w)) + length (i # rest)"
    using r(4) h by (simp add: footer_events_def)
  ultimately show ?case by blast
qed

subsection \<open>Overlaying\<close>

text \<open>
  One round of the overlay loop, in full.
\<close>

lemma overlay_one_run:
  "overlay_one env fs i mp res w =
     (case copy_foreign_page env mp of
        Inl e \<Rightarrow> (Inl e, w)
      | Inr cp \<Rightarrow> (Inr (res @ [overlaid env fs i cp]),
                   w\<lparr>trace := trace w @ overlay_logs env fs i cp\<rparr>))"
proof (cases "copy_foreign_page env mp")
  case (Inl e)
  then show ?thesis by (simp add: overlay_one_def bindM_apply)
next
  case (Inr cp)
  show ?thesis
  proof (cases "i < length fs")
    case False
    then show ?thesis
      by (simp add: Inr overlay_one_def bindM_apply overlaid_def overlay_logs_def)
  next
    case True
    show ?thesis
    proof (cases "pdf_open env (fs ! i)")
      case (Inl e)
      then show ?thesis using True
        by (simp add: Inr overlay_one_def bindM_apply tryM_apply log_warning_def
            overlaid_def overlay_logs_def)
    next
      case opened: (Inr footer_pages)
      show ?thesis
      proof (cases footer_pages)
        case Nil
        then show ?thesis using True opened
          by (simp add: Inr overlay_one_def bindM_apply tryM_apply overlaid_def overlay_logs_def)
      next
        case (Cons fp rest)
        show ?thesis
        proof (cases "has_add_overlay env")
          case False
          then show ?thesis using True opened Cons
            by (simp add: Inr overlay_one_def overlay_page_content_def bindM_apply tryM_apply
                overlaid_def overlay_logs_def)
        next
          case has: True
          then show ?thesis using True opened Cons
            by (cases "add_overlay env cp fp")
               (simp_all add: Inr overlay_one_def overlay_page_content_def bindM_apply
                  tryM_apply log_warning_def overlaid_def overlay_logs_def)
        qed
      qed
    qed
  qed
qed

lemma overlay_logs_quiet [simp]:
  "rendered_contexts (overlay_logs env fs i cp) = []"
  "http_posts (overlay_logs env fs i cp) = []"
  by (simp_all add: overlay_logs_def split: sum.splits list.splits)

lemma overlay_loop_quiet:
  "rendered_contexts (trace (snd (overlay_loop env fs i pages res w))) = rendered_contexts (trace w)
   \<and> http_posts (trace (snd (overlay_loop env fs i pages res w))) = http_posts (trace w)
   \<and> heap (snd (overlay_loop env fs i pages res w)) = heap w"
proof (induction pages arbitrary: i res w)
  case Nil
  then show ?case by simp
next
  case (Cons p ps)
  show ?case
  proof (cases "copy_foreign_page env p")
    case (Inl e)
    then show ?thesis by (simp add: bindM_apply overlay_one_run)
  next
    case (Inr cp)
    have step: "overlay_loop env fs i (p # ps) res w
        = overlay_loop env fs (Suc i) ps (res @ [overlaid env fs i cp])
            (w\<lparr>trace := trace w @ overlay_logs env fs i cp\<rparr>)"
      by (simp add: Inr bindM_apply overlay_one_run)
    show ?thesis unfolding step
      using Cons.IH [of "Suc i" "res @ [overlaid env fs i cp]"
                        "w\<lparr>trace := trace w @ overlay_logs env fs i cp\<rparr>"]
      by simp
  qed
qed

lemma overlay_loop_Inr:
  "overlay_loop env fs i pages res w = (Inr out, w') \<Longrightarrow>
     \<exists>result. out = res @ result \<and> length result = length pages
       \<and> (\<forall>j<length pages. \<exists>cp. copy_foreign_page env (pages ! j) = Inr cp
             \<and> result ! j = overlaid env fs (i + j) cp
             \<and> set (overlay_logs env fs (i + j) cp) \<subseteq> set (trace w'))
       \<and> set (trace w) \<subseteq> set (trace w')"
proof (induction pages arbitrary: i res w)
  case Nil
  then show ?case by simp
next
  case (Cons p ps)
  from Cons.prems obtain cp where cp: "copy_foreign_page env p = Inr cp"
    by (cases "copy_foreign_page env p") (simp_all add: bindM_apply overlay_one_run)
  let ?x = "overlaid env fs i cp"
  let ?w1 = "w\<lparr>trace := trace w @ overlay_logs env fs i cp\<rparr>"
  have step: "overlay_loop env fs (Suc i) ps (res @ [?x]) ?w1 = (Inr out, w')"
    using Cons.prems by (simp add: cp bindM_apply overlay_one_run)
  from Cons.IH [OF step] obtain result where
    r: "out = (res @ [?x]) @ result" "length result = length ps"
       "\<forall>j<length ps. \<exists>c. copy_foreign_page env (ps ! j) = Inr c
             \<and> result ! j = overlaid env fs (Suc i + j) c
             \<and> set (overlay_logs env fs (Suc i + j) c) \<subseteq> set (trace w')"
       "set (trace ?w1) \<subseteq> set (trace w')"
    by blast
  have pages: "\<forall>j<length (p # ps). \<exists>c. copy_foreign_page env ((p # ps) ! j) = Inr c
             \<and> (?x # result) ! j = overlaid env fs (i + j) c
             \<and> set (overlay_logs env fs (i + j) c) \<subseteq> set (trace w')"
  proof (intro allI impI)
    fix j assume j: "j < length (p # ps)"
    show "\<exists>c. copy_foreign_page env ((p # ps) ! j) = Inr c
             \<and> (?x # result) ! j = overlaid env fs (i + j) c
             \<and> set (overlay_logs env fs (i + j) c) \<subseteq> set (trace w')"
    proof (cases j)
      case 0
      then show ?thesis using cp r(4) by auto
    next
      case (Suc j')
      then have "j' < length ps" using j by simp
      with r(3) Suc show ?thesis by simp
    qed
  qed
  have "out = res @ (?x # result)" using r(1) by simp
  moreover have "length (?x # result) = length (p # ps)" using r(2) by simp
  moreover have "set (trace w) \<subseteq> set (trace w')" using r(4) by auto
  ultimately show ?case using pages by blast
qed

lemma overlay_loop_total:
  "\<forall>p\<in>set pages. \<exists>cp. copy_foreign_page env p = Inr cp \<Longrightarrow>
     \<exists>out w'. overlay_loop env fs i pages res w = (Inr out, w')"
proof (induction pages arbitrary: i res w)
  case Nil
  then show ?case by simp
next
  case (Cons p ps)
  then obtain cp where cp: "copy_foreign_page env p = Inr cp" by auto
  from Cons.prems have "\<forall>q\<in>set ps. \<exists>c. copy_foreign_page env q = Inr c" by simp
  from Cons.IH [OF this] show ?case
    by (simp add: cp bindM_apply overlay_one_run)
qed

lemma overlay_loop_Inl:
  "p \<in> set pages \<Longrightarrow> copy_foreign_page env p = Inl e \<Longrightarrow>
     \<exists>e' w'. overlay_loop env fs i pages res w = (Inl e', w')"
proof (induction pages arbitrary: i res w)
  case Nil
  then show ?case by simp
next
  case (Cons q qs)
  show ?case
  proof (cases "copy_foreign_page env q")
    case (Inl e0)
    then show ?thesis by (simp add: bindM_apply overlay_one_run)
  next
    case (Inr cp)
    with Cons.prems have "p \<in> set qs" by auto
    from Cons.IH [OF this Cons.prems(2)] show ?thesis
      by (simp add: Inr bindM_apply overlay_one_run)
  qed
qed

lemma overlaid_take:
  "i < n \<Longrightarrow> overlaid env (take n fs) i cp = overlaid env fs i cp"
  by (simp add: overlaid_def)

lemma overlay_logs_take:
  "i < n \<Longrightarrow> overlay_logs env (take n fs) i cp = overlay_logs env fs i cp"
  by (simp add: overlay_logs_def)

lemma overlay_one_take:
  "i < n \<Longrightarrow> overlay_one env (take n fs) i mp res w = overlay_one env fs i mp res w"
  by (cases "copy_foreign_page env mp")
     (simp_all add: overlay_one_run overlaid_take overlay_logs_take)

lemma overlay_loop_take:
  "i + length pages \<le> n \<Longrightarrow>
     overlay_loop env (take n fs) i pages res w = overlay_loop env fs i pages res w"
proof (induction pages arbitrary: i res w)
  case Nil
  then show ?case by simp
next
  case (Cons p ps)
  then have i: "i < n" and rest: "Suc i + length ps \<le> n" by simp_all
  show ?case
    by (simp add: bindM_apply overlay_one_take [OF i] Cons.IH [OF rest]
        split: prod.splits sum.splits)
qed

lemma overlay_body_apply:
  "overlay_body env main fs w =
     (case pdf_open env main of
        Inl e \<Rightarrow> (Inl e, w)
      | Inr pages \<Rightarrow>
          (case overlay_loop env fs 0 pages [] w of
             (Inl e, w1) \<Rightarrow> (Inl e, w1)
           | (Inr result, w1) \<Rightarrow> (pdf_save env result, w1)))"
  by (simp add: overlay_body_def bindM_apply split: sum.splits prod.splits)

lemma overlay_apply:
  "overlay_footer_pdfs_on_main_pdf env main fs w =
     (case overlay_body env main fs w of
        (Inl e, w1) \<Rightarrow> (Inr main, w1\<lparr>trace := trace w1 @ [LogError (ErrorOverlayingFooterPdfs e)]\<rparr>)
      | (Inr out, w1) \<Rightarrow> (Inr out, w1))"
  by (simp add: overlay_footer_pdfs_on_main_pdf_def tryM_apply bindM_apply log_error_def
      split: sum.splits prod.splits)

lemma overlay_returns:
  "\<exists>b w'. overlay_footer_pdfs_on_main_pdf env main fs w = (Inr b, w')"
  by (simp add: overlay_apply split: sum.splits prod.splits)

lemma overlay_quiet:
  "rendered_contexts (trace (snd (overlay_footer_pdfs_on_main_pdf env main fs w)))
     = rendered_contexts (trace w)
   \<and> http_posts (trace (snd (overlay_footer_pdfs_on_main_pdf env main fs w)))
     = http_posts (trace w)"
proof (cases "pdf_open env main")
  case (Inl e)
  then show ?thesis by (simp add: overlay_apply overlay_body_apply)
next
  case (Inr pages)
  obtain r w1 where l: "overlay_loop env fs 0 pages [] w = (r, w1)" by fastforce
  from overlay_loop_quiet [of env fs 0 pages "[]" w] l
  have q: "rendered_contexts (trace w1) = rendered_contexts (trace w)"
          "http_posts (trace w1) = http_posts (trace w)" by simp_all
  show ?thesis using q l
    by (cases r; cases "pdf_save env (projr r)")
       (simp_all add: overlay_apply overlay_body_apply Inr)
qed

section \<open>The router\<close>

text \<open>
  Claim C1. The router decides in a fixed order. For a statement report whose
  \<^verbatim>\<open>template_args\<close> carry grouped invoices, the result is exactly what the chunking
  collaborator returns, the only call made is the call to it, and no request is posted to
  the renderer. Otherwise, for a statement report with page numbers asked for, the router
  runs the multi-pass flow. Otherwise it is one direct render whose request has the single
  part \<^verbatim>\<open>index.html\<close> and no footer instruction. The condition on grouped invoices is the
  truth value of the entry; for a list it is that the list is not empty.
\<close>

theorem finalize_pdf_routing:
  "(is_statement template_name \<and> has_grouped_invoices w template_args \<longrightarrow>
      finalize_pdf env template_name template_args html_out gpn w
        = (create_chunk_report env template_name (deref_opt w template_args) gpn,
           w\<lparr>trace := trace w @ [ChunkCall template_name (deref_opt w template_args) gpn]\<rparr>)
      \<and> http_posts (trace (snd (finalize_pdf env template_name template_args html_out gpn w)))
        = http_posts (trace w))
   \<and> (\<not> (is_statement template_name \<and> has_grouped_invoices w template_args)
        \<and> is_statement template_name \<and> gpn \<longrightarrow>
      finalize_pdf env template_name template_args html_out gpn w
        = generate_pdf_with_page_numbers env template_name template_args html_out w)
   \<and> (\<not> (is_statement template_name \<and> has_grouped_invoices w template_args)
        \<and> \<not> (is_statement template_name \<and> gpn) \<longrightarrow>
      finalize_pdf env template_name template_args html_out gpn w
        = generate_pdf env html_out gpn None w
      \<and> trace (snd (finalize_pdf env template_name template_args html_out gpn w))
        = trace w @ [HttpPost (gotenberg_endpoint env)
                       [(''files'', ''index.html'', html_out, ''text/html'')] []])
   \<and> (\<forall>a xs. template_args = Some a
          \<and> map_of (heap w a) ''groupedInvoices'' = Some (PList xs) \<longrightarrow>
        has_grouped_invoices w template_args = (xs \<noteq> []))"
proof (intro conjI allI impI)
  assume "is_statement template_name \<and> has_grouped_invoices w template_args"
  then show "finalize_pdf env template_name template_args html_out gpn w
        = (create_chunk_report env template_name (deref_opt w template_args) gpn,
           w\<lparr>trace := trace w @ [ChunkCall template_name (deref_opt w template_args) gpn]\<rparr>)"
    by (simp add: finalize_pdf_def chunk_report_call_def bindM_apply)
  then show "http_posts (trace (snd (finalize_pdf env template_name template_args html_out gpn w)))
        = http_posts (trace w)"
    by simp
next
  assume "\<not> (is_statement template_name \<and> has_grouped_invoices w template_args)
        \<and> is_statement template_name \<and> gpn"
  then show "finalize_pdf env template_name template_args html_out gpn w
        = generate_pdf_with_page_numbers env template_name template_args html_out w"
    by (simp add: finalize_pdf_def)
next
  assume a: "\<not> (is_statement template_name \<and> has_grouped_invoices w template_args)
        \<and> \<not> (is_statement template_name \<and> gpn)"
  then show d: "finalize_pdf env template_name template_args html_out gpn w
        = generate_pdf env html_out gpn None w"
    by (auto simp add: finalize_pdf_def)
  show "trace (snd (finalize_pdf env template_name template_args html_out gpn w))
        = trace w @ [HttpPost (gotenberg_endpoint env)
                       [(''files'', ''index.html'', html_out, ''text/html'')] []]"
    unfolding d by (simp add: generate_pdf_run Let_def)
next
  fix a xs
  assume "template_args = Some a \<and> map_of (heap w a) ''groupedInvoices'' = Some (PList xs)"
  then show "has_grouped_invoices w template_args = (xs \<noteq> [])"
    by (auto simp add: has_grouped_invoices_def args_or_empty_def)
qed

text \<open>
  The three branches on the stub collaborators: a statement report with grouped invoices,
  one without, and another report.
\<close>

theorem finalize_pdf_routing_witness:
  "finalize_pdf stub_env (Some ''statement_report'') (Some 0) ''<p/>'' True w0
     = (Inr ''chunked'',
        w0\<lparr>trace := [ChunkCall (Some ''statement_report'')
                        (Some [(''groupedInvoices'', PList [PInt 7])]) True]\<rparr>)
   \<and> finalize_pdf stub_env (Some ''statement_report'') (Some 1) ''<p/>'' True w0
     = generate_pdf_with_page_numbers stub_env (Some ''statement_report'') (Some 1) ''<p/>'' w0
   \<and> finalize_pdf stub_env (Some ''invoice'') (Some 0) ''<p/>'' True w0
     = generate_pdf stub_env ''<p/>'' True None w0
   \<and> has_grouped_invoices w0 (Some 0)"
  using finalize_pdf_routing [where template_name = "Some ''statement_report''" and w = w0
          and template_args = "Some 0" and env = stub_env and html_out = "''<p/>''" and gpn = True]
        finalize_pdf_routing [where template_name = "Some ''statement_report''" and w = w0
          and template_args = "Some 1" and env = stub_env and html_out = "''<p/>''" and gpn = True]
        finalize_pdf_routing [where template_name = "Some ''invoice''" and w = w0
          and template_args = "Some 0" and env = stub_env and html_out = "''<p/>''" and gpn = True]
  by (simp add: is_statement_def has_grouped_invoices_def args_or_empty_def deref_opt_def
      w0_def stub_env_def)

text \<open>
  Claim C10 as stated fails: for a statement report with page numbers asked for and
  \<^verbatim>\<open>template_args\<close> absent, the request is not routed to the direct render.
\<close>

theorem args_none_statement_not_direct:
  "fst (finalize_pdf stub_env (Some ''statement_report'') None ''<p/>'' True w0)
     = Inl AttributeError
   \<and> fst (generate_pdf stub_env ''<p/>'' True None w0) = Inr ''AB''"
  by (simp add: finalize_pdf_def is_statement_def has_grouped_invoices_def args_or_empty_def
      generate_pdf_with_page_numbers_def generate_footer_pdfs_def bindM_apply generate_pdf_run
      generate_single_footer_pdf_None upt_two stub_env_def)

text \<open>
  With \<^verbatim>\<open>template_args\<close> absent, \<^verbatim>\<open>create_report_from_template\<close> raises at the render
  and never reaches the report name.
\<close>

lemma create_report_from_template_None:
  assumes "b64decode_utf8 sb template_string = Inr template_decoded"
    and "sandbox_from_string sb template_decoded = Inr t"
  shows "create_report_from_template env sb template_string None gpn w = (Inl TypeError, w)"
  using assms by (simp add: create_report_from_template_def render_sandboxed_def bindM_apply)

text \<open>
  Claim C10, amended. The routing conditions are defined for absent inputs. A template
  name that is absent or empty is not a statement report and the request goes to the
  direct render. Absent \<^verbatim>\<open>template_args\<close> carry no grouped invoices, so the request never
  goes to the chunking collaborator: it goes to the multi-pass flow for a statement report
  with page numbers asked for, and to the direct render otherwise.
  \<^verbatim>\<open>create_report_from_template\<close>, once the template is decoded and rendered, passes the
  empty string as the name when \<^verbatim>\<open>template_args\<close> have no \<^verbatim>\<open>reportName\<close>, and so goes
  to the direct render.
\<close>

theorem finalize_pdf_absent_inputs:
  "((template_name = None \<or> template_name = Some []) \<longrightarrow>
       \<not> is_statement template_name
     \<and> finalize_pdf env template_name template_args html_out gpn w
         = generate_pdf env html_out gpn None w)
   \<and> \<not> has_grouped_invoices w None
   \<and> finalize_pdf env template_name None html_out gpn w
       = (if is_statement template_name \<and> gpn
          then generate_pdf_with_page_numbers env template_name None html_out w
          else generate_pdf env html_out gpn None w)
   \<and> (\<forall>a template_decoded t h.
          map_of (heap w a) ''reportName'' = None
        \<and> b64decode_utf8 sb template_string = Inr template_decoded
        \<and> sandbox_from_string sb template_decoded = Inr t
        \<and> sandbox_render sb t (heap w a) = Inr h \<longrightarrow>
          report_name w (Some a) = PStr []
        \<and> create_report_from_template env sb template_string (Some a) gpn w
            = finalize_pdf env (Some []) (Some a) h gpn
                (w\<lparr>trace := trace w @ [RenderTemplate t (heap w a)]\<rparr>)
        \<and> create_report_from_template env sb template_string (Some a) gpn w
            = generate_pdf env h gpn None
                (w\<lparr>trace := trace w @ [RenderTemplate t (heap w a)]\<rparr>))"
proof (intro conjI allI impI)
  assume "template_name = None \<or> template_name = Some []"
  then show "\<not> is_statement template_name"
    by (auto simp add: is_statement_def)
  then show "finalize_pdf env template_name template_args html_out gpn w
         = generate_pdf env html_out gpn None w"
    by (simp add: finalize_pdf_def)
next
  show "\<not> has_grouped_invoices w None"
    by (simp add: has_grouped_invoices_def args_or_empty_def)
  then show "finalize_pdf env template_name None html_out gpn w
       = (if is_statement template_name \<and> gpn
          then generate_pdf_with_page_numbers env template_name None html_out w
          else generate_pdf env html_out gpn None w)"
    by (simp add: finalize_pdf_def)
next
  fix a template_decoded t h
  assume a: "map_of (heap w a) ''reportName'' = None
        \<and> b64decode_utf8 sb template_string = Inr template_decoded
        \<and> sandbox_from_string sb template_decoded = Inr t
        \<and> sandbox_render sb t (heap w a) = Inr h"
  let ?w1 = "w\<lparr>trace := trace w @ [RenderTemplate t (heap w a)]\<rparr>"
  from a show rn: "report_name w (Some a) = PStr []"
    by (simp add: report_name_def args_or_empty_def)
  then have rn1: "report_name ?w1 (Some a) = PStr []"
    by (simp add: report_name_def args_or_empty_def)
  from a rn1 show run: "create_report_from_template env sb template_string (Some a) gpn w
            = finalize_pdf env (Some []) (Some a) h gpn ?w1"
    by (simp add: create_report_from_template_def render_sandboxed_def finalize_pdf_value_def
        bindM_apply)
  show "create_report_from_template env sb template_string (Some a) gpn w
            = generate_pdf env h gpn None ?w1"
    unfolding run by (simp add: finalize_pdf_def is_statement_def)
qed

text \<open>
  Absent name, empty name, and absent arguments on the stub collaborators, and a decoded
  template rendered from arguments without a report name.
\<close>

theorem finalize_pdf_absent_inputs_witness:
  "finalize_pdf stub_env None None ''<p/>'' True w0 = generate_pdf stub_env ''<p/>'' True None w0
   \<and> finalize_pdf stub_env (Some []) (Some 0) ''<p/>'' True w0
       = generate_pdf stub_env ''<p/>'' True None w0
   \<and> finalize_pdf stub_env (Some ''statement_report'') None ''<p/>'' True w0
       = generate_pdf_with_page_numbers stub_env (Some ''statement_report'') None ''<p/>'' w0
   \<and> map_of (heap w0 1) ''reportName'' = None
   \<and> report_name w0 (Some 1) = PStr []
   \<and> create_report_from_template stub_env stub_sandbox ''PHAvPg=='' (Some 1) True w0
       = generate_pdf stub_env ''<p/>'' True None
           (w0\<lparr>trace := trace w0 @ [RenderTemplate ''<p/>'' (heap w0 1)]\<rparr>)"
proof -
  have h: "map_of (heap w0 1) ''reportName'' = None"
       "b64decode_utf8 stub_sandbox ''PHAvPg=='' = Inr ''<p/>''"
       "sandbox_from_string stub_sandbox ''<p/>'' = Inr ''<p/>''"
       "sandbox_render stub_sandbox ''<p/>'' (heap w0 1) = Inr ''<p/>''"
    by (simp_all add: w0_def stub_sandbox_def)
  note r = finalize_pdf_absent_inputs [where env = stub_env and sb = stub_sandbox
             and html_out = "''<p/>''" and gpn = True and w = w0
             and template_string = "''PHAvPg==''"]
  from r [where template_name = None and template_args = None]
  have a: "finalize_pdf stub_env None None ''<p/>'' True w0
             = generate_pdf stub_env ''<p/>'' True None w0"
    by simp
  from r [where template_name = "Some []" and template_args = "Some 0"]
  have b: "finalize_pdf stub_env (Some []) (Some 0) ''<p/>'' True w0
             = generate_pdf stub_env ''<p/>'' True None w0"
    by simp
  from r [where template_name = "Some ''statement_report''" and template_args = None]
  have c: "finalize_pdf stub_env (Some ''statement_report'') None ''<p/>'' True w0
       = generate_pdf_with_page_numbers stub_env (Some ''statement_report'') None ''<p/>'' w0"
    by (simp add: is_statement_def)
  from r [where template_name = None and template_args = None] h
  have d: "report_name w0 (Some 1) = PStr []
     \<and> create_report_from_template stub_env stub_sandbox ''PHAvPg=='' (Some 1) True w0
       = generate_pdf stub_env ''<p/>'' True None
           (w0\<lparr>trace := trace w0 @ [RenderTemplate ''<p/>'' (heap w0 1)]\<rparr>)"
    by blast
  from a b c d h(1) show ?thesis by simp
qed

section \<open>The renderer client\<close>

text \<open>
  Claim C9 as stated fails twice: a render given footer markup but not the page-number
  flag posts one part only, and a response with status 304 is returned as bytes.
\<close>

theorem footer_html_without_flag_one_part:
  "http_posts (trace (snd (generate_pdf stub_env ''<p/>'' False (Some ''<footer/>'') w0)))
     = [([(''files'', ''index.html'', ''<p/>'', ''text/html'')], [])]
   \<and> fst (generate_pdf not_modified_env ''<p/>'' False None w0) = Inr ''not modified''"
  by (simp add: generate_pdf_run not_modified_env_def stub_env_def w0_def)

text \<open>
  Claim C9, amended. \<^verbatim>\<open>generate_pdf\<close> posts one request. It has the single part
  \<^verbatim>\<open>index.html\<close> unless the page-number flag is set and the footer markup is not empty;
  then it has the two parts \<^verbatim>\<open>index.html\<close> and \<^verbatim>\<open>footer.html\<close> and the instruction that
  names \<^verbatim>\<open>footer.html\<close> as the footer. \<^verbatim>\<open>generate_single_footer_pdf\<close> always posts the
  two parts and the instruction. In both, a failure of the post is raised as it is, a
  response with a status from 400 to 599 raises an error carrying that status, and any
  other response gives its bytes.
\<close>

theorem renderer_client_contract:
  "(\<not> (gpn \<and> footer_html \<noteq> None \<and> footer_html \<noteq> Some []) \<longrightarrow>
      trace (snd (generate_pdf env html_out gpn footer_html w))
        = trace w @ [HttpPost (gotenberg_endpoint env)
                       [(''files'', ''index.html'', html_out, ''text/html'')] []])
   \<and> (\<forall>f. gpn \<and> f \<noteq> [] \<longrightarrow>
      trace (snd (generate_pdf env html_out gpn (Some f) w))
        = trace w @ [HttpPost (gotenberg_endpoint env)
                       [(''files'', ''index.html'', html_out, ''text/html''),
                        (''files'', ''footer.html'', f, ''text/html'')]
                       [(''footer'', ''footer.html'')]])
   \<and> (\<forall>ep files form_data.
        last (trace (snd (generate_pdf env html_out gpn footer_html w)))
          = HttpPost ep files form_data \<longrightarrow>
        fst (generate_pdf env html_out gpn footer_html w)
          = (case http_post env ep files form_data of
               Inl e \<Rightarrow> Inl e
             | Inr r \<Rightarrow> if 400 \<le> status_code r \<and> status_code r < 600
                        then Inl (HTTPError (status_code r)) else Inr (content r)))
   \<and> (\<forall>h. render env ft (page_context (heap w a) k n) = Inr h \<longrightarrow>
        trace (snd (generate_single_footer_pdf env ft (Some a) k n w))
          = trace w @ [RenderTemplate ft (page_context (heap w a) k n),
                       HttpPost (gotenberg_endpoint env)
                         [(''files'', ''index.html'', ''<!DOCTYPE html>'', ''text/html''),
                          (''files'', ''footer.html'', h, ''text/html'')]
                         [(''footer'', ''footer.html'')]]
      \<and> fst (generate_single_footer_pdf env ft (Some a) k n w)
          = (case http_post env (gotenberg_endpoint env)
                    [(''files'', ''index.html'', ''<!DOCTYPE html>'', ''text/html''),
                     (''files'', ''footer.html'', h, ''text/html'')]
                    [(''footer'', ''footer.html'')] of
               Inl e \<Rightarrow> Inl e
             | Inr r \<Rightarrow> if 400 \<le> status_code r \<and> status_code r < 600
                        then Inl (HTTPError (status_code r)) else Inr (content r)))"
proof (intro conjI allI impI)
  assume "\<not> (gpn \<and> footer_html \<noteq> None \<and> footer_html \<noteq> Some [])"
  then show "trace (snd (generate_pdf env html_out gpn footer_html w))
        = trace w @ [HttpPost (gotenberg_endpoint env)
                       [(''files'', ''index.html'', html_out, ''text/html'')] []]"
    by (auto simp add: generate_pdf_run Let_def)
next
  fix f :: string assume "gpn \<and> f \<noteq> []"
  then show "trace (snd (generate_pdf env html_out gpn (Some f) w))
        = trace w @ [HttpPost (gotenberg_endpoint env)
                       [(''files'', ''index.html'', html_out, ''text/html''),
                        (''files'', ''footer.html'', f, ''text/html'')]
                       [(''footer'', ''footer.html'')]]"
    by (simp add: generate_pdf_run Let_def)
next
  fix ep files form_data
  assume "last (trace (snd (generate_pdf env html_out gpn footer_html w)))
          = HttpPost ep files form_data"
  then show "fst (generate_pdf env html_out gpn footer_html w)
          = (case http_post env ep files form_data of
               Inl e \<Rightarrow> Inl e
             | Inr r \<Rightarrow> if 400 \<le> status_code r \<and> status_code r < 600
                        then Inl (HTTPError (status_code r)) else Inr (content r))"
    by (auto simp add: generate_pdf_run Let_def)
next
  fix h assume h: "render env ft (page_context (heap w a) k n) = Inr h"
  then show "trace (snd (generate_single_footer_pdf env ft (Some a) k n w))
          = trace w @ [RenderTemplate ft (page_context (heap w a) k n),
                       HttpPost (gotenberg_endpoint env)
                         [(''files'', ''index.html'', ''<!DOCTYPE html>'', ''text/html''),
                          (''files'', ''footer.html'', h, ''text/html'')]
                         [(''footer'', ''footer.html'')]]"
    by (simp add: generate_single_footer_pdf_run footer_events_def footer_files_def)
  from h show "fst (generate_single_footer_pdf env ft (Some a) k n w)
          = (case http_post env (gotenberg_endpoint env)
                    [(''files'', ''index.html'', ''<!DOCTYPE html>'', ''text/html''),
                     (''files'', ''footer.html'', h, ''text/html'')]
                    [(''footer'', ''footer.html'')] of
               Inl e \<Rightarrow> Inl e
             | Inr r \<Rightarrow> if 400 \<le> status_code r \<and> status_code r < 600
                        then Inl (HTTPError (status_code r)) else Inr (content r))"
    by (simp add: generate_single_footer_pdf_run footer_pdf_of_def footer_files_def)
qed

text \<open>
  The request shapes on the stub collaborators.
\<close>

theorem renderer_client_contract_witness:
  "trace (snd (generate_pdf stub_env ''<p/>'' False (Some ''<footer/>'') w0))
     = [HttpPost ''http://localhost:3000/forms/chromium/convert/html''
          [(''files'', ''index.html'', ''<p/>'', ''text/html'')] []]
   \<and> trace (snd (generate_pdf stub_env ''<p/>'' True (Some ''<footer/>'') w0))
     = [HttpPost ''http://localhost:3000/forms/chromium/convert/html''
          [(''files'', ''index.html'', ''<p/>'', ''text/html''),
           (''files'', ''footer.html'', ''<footer/>'', ''text/html'')]
          [(''footer'', ''footer.html'')]]
   \<and> fst (generate_pdf stub_env ''<p/>'' True (Some ''<footer/>'') w0) = Inr ''<footer/>''
   \<and> fst (generate_single_footer_pdf stub_env ''footer'' (Some 1) 1 2 w0) = Inr ''1''"
proof -
  have r: "render stub_env ''footer'' (page_context (heap w0 1) 1 2) = Inr ''1''"
    by (simp add: stub_env_def page_context_lookup)
  from renderer_client_contract [where env = stub_env and html_out = "''<p/>''" and gpn = False
         and footer_html = "Some ''<footer/>''" and w = w0 and ft = "''footer''" and a = 1
         and k = 1 and n = 2] r
  have a: "trace (snd (generate_pdf stub_env ''<p/>'' False (Some ''<footer/>'') w0))
     = [HttpPost ''http://localhost:3000/forms/chromium/convert/html''
          [(''files'', ''index.html'', ''<p/>'', ''text/html'')] []]"
    and d: "fst (generate_single_footer_pdf stub_env ''footer'' (Some 1) 1 2 w0) = Inr ''1''"
    by (simp_all add: gotenberg_endpoint_def stub_env_def w0_def)
  from renderer_client_contract [where env = stub_env and html_out = "''<p/>''" and gpn = True
         and footer_html = "Some ''<footer/>''" and w = w0 and ft = "''footer''" and a = 1
         and k = 1 and n = 2]
  have b: "trace (snd (generate_pdf stub_env ''<p/>'' True (Some ''<footer/>'') w0))
     = [HttpPost ''http://localhost:3000/forms/chromium/convert/html''
          [(''files'', ''index.html'', ''<p/>'', ''text/html''),
           (''files'', ''footer.html'', ''<footer/>'', ''text/html'')]
          [(''footer'', ''footer.html'')]]"
    by (simp add: gotenberg_endpoint_def stub_env_def w0_def)
  from renderer_client_contract [where env = stub_env and html_out = "''<p/>''" and gpn = True
         and footer_html = "Some ''<footer/>''" and w = w0 and ft = "''footer''" and a = 1
         and k = 1 and n = 2] b
  have c: "fst (generate_pdf stub_env ''<p/>'' True (Some ''<footer/>'') w0) = Inr ''<footer/>''"
    by (simp add: stub_env_def)
  from a b c d show ?thesis by simp
qed

section \<open>Footer generation\<close>

text \<open>
  Claim C2. For a first-pass page count \<open>N \<ge> 1\<close>, when the footer template loads and
  every footer request returns, \<^verbatim>\<open>_generate_footer_pdfs\<close> returns exactly \<open>N\<close> footer
  documents; the contexts rendered are those of pages \<open>1\<close> to \<open>N\<close> in this order, the
  document at index \<open>i\<close> is the one rendered from the context of page \<open>i + 1\<close>, and that
  context carries \<^verbatim>\<open>current_page = i + 1\<close> and \<^verbatim>\<open>total_pages = N\<close>.
\<close>

theorem generate_footer_pdfs_contexts:
  assumes "1 \<le> N" and "a < next_free w"
    and "get_template env (template_folder_path env @ ''/statement_footer.html'') = Inr ft"
    and "\<forall>i\<in>set [0..<nat N]. \<exists>doc.
           footer_pdf_of env ft (page_context (heap w a) (int i + 1) N) = Inr doc"
  shows "\<exists>docs w'. generate_footer_pdfs env (Some a) N w = (Inr docs, w')
      \<and> length docs = nat N
      \<and> rendered_contexts (trace w')
          = rendered_contexts (trace w)
            @ map (\<lambda>i. page_context (heap w a) (int i + 1) N) [0..<nat N]
      \<and> (\<forall>i<nat N.
            footer_pdf_of env ft (page_context (heap w a) (int i + 1) N) = Inr (docs ! i)
          \<and> map_of (page_context (heap w a) (int i + 1) N) ''current_page''
              = Some (PInt (int i + 1))
          \<and> map_of (page_context (heap w a) (int i + 1) N) ''total_pages'' = Some (PInt N))"
proof -
  from footer_loop_run [OF assms(2) assms(4), of "[]"] obtain docs w' where
    r: "footer_loop env ft (Some a) N [0..<nat N] [] w = (Inr ([] @ docs), w')"
       "map Inr docs
          = map (\<lambda>i. footer_pdf_of env ft (page_context (heap w a) (int i + 1) N)) [0..<nat N]"
       "rendered_contexts (trace w')
          = rendered_contexts (trace w)
            @ map (\<lambda>i. page_context (heap w a) (int i + 1) N) [0..<nat N]"
    by blast
  have run: "generate_footer_pdfs env (Some a) N w = (Inr docs, w')"
    using r(1) assms(3) by (simp add: generate_footer_pdfs_def bindM_apply)
  have len: "length docs = nat N"
    using arg_cong [OF r(2), of length] by simp
  have each: "\<forall>i<nat N.
      footer_pdf_of env ft (page_context (heap w a) (int i + 1) N) = Inr (docs ! i)"
  proof (intro allI impI)
    fix i assume i: "i < nat N"
    have "map Inr docs ! i
        = map (\<lambda>i. footer_pdf_of env ft (page_context (heap w a) (int i + 1) N)) [0..<nat N] ! i"
      using r(2) by simp
    then show "footer_pdf_of env ft (page_context (heap w a) (int i + 1) N) = Inr (docs ! i)"
      using i len by simp
  qed
  show ?thesis
    using run len r(3) each by (simp add: page_context_lookup)
qed

text \<open>
  Two pages on the stub collaborators.
\<close>

theorem generate_footer_pdfs_contexts_witness:
  "\<exists>docs w'. generate_footer_pdfs stub_env (Some 1) 2 w0 = (Inr docs, w')
      \<and> length docs = 2
      \<and> rendered_contexts (trace w')
          = map (\<lambda>k. [(''accountName'', PStr ''Acme''), (''current_page'', PInt k),
                         (''total_pages'', PInt 2)]) [1, 2]"
proof -
  have h1: "(1::int) \<le> 2" by simp
  have h2: "1 < next_free w0" by (simp add: w0_def)
  have h3: "get_template stub_env (template_folder_path stub_env @ ''/statement_footer.html'')
              = Inr ''templates/statement_footer.html''"
    by (simp add: stub_env_def)
  have h4: "\<forall>i\<in>set [0..<nat 2]. \<exists>doc.
      footer_pdf_of stub_env ''templates/statement_footer.html''
        (page_context (heap w0 1) (int i + 1) 2) = Inr doc"
    by (simp add: footer_pdf_of_def page_context_lookup stub_env_def)
  have u: "[0..<2] = [0, Suc 0]" by (simp add: upt_rec)
  from generate_footer_pdfs_contexts [OF h1 h2 h3 h4] show ?thesis
    by (auto simp add: u page_context_def w0_def)
qed

text \<open>
  Claim C8. \<^verbatim>\<open>generate_single_footer_pdf\<close> writes \<^verbatim>\<open>current_page\<close> and
  \<^verbatim>\<open>total_pages\<close> to a new dictionary. The caller's dictionary, and every other object
  that existed before the call, holds afterwards what it held before, and so after all
  the calls of \<^verbatim>\<open>_generate_footer_pdfs\<close>.
\<close>

theorem generate_single_footer_pdf_frame:
  assumes "a < next_free w"
  shows "heap (snd (generate_single_footer_pdf env ft (Some a) k n w)) a = heap w a
     \<and> heap (snd (generate_single_footer_pdf env ft (Some a) k n w)) (next_free w)
         = page_context (heap w a) k n
     \<and> (\<forall>b<next_free w. heap (snd (generate_single_footer_pdf env ft (Some a) k n w)) b = heap w b)
     \<and> (\<forall>b<next_free w. heap (snd (generate_footer_pdfs env (Some a) n w)) b = heap w b)"
proof -
  have loop: "\<forall>b<next_free w. heap (snd (generate_footer_pdfs env (Some a) n w)) b = heap w b"
  proof (intro allI impI)
    fix b assume b: "b < next_free w"
    show "heap (snd (generate_footer_pdfs env (Some a) n w)) b = heap w b"
    proof (cases "get_template env (template_folder_path env @ ''/statement_footer.html'')")
      case (Inl e)
      then show ?thesis by (simp add: generate_footer_pdfs_def bindM_apply)
    next
      case (Inr t)
      then show ?thesis
        using footer_loop_frame [OF b, of env t "Some a" n "[0..<nat n]" "[]"]
        by (simp add: generate_footer_pdfs_def bindM_apply)
    qed
  qed
  show ?thesis using assms loop
    by (simp add: generate_single_footer_pdf_run)
qed

text \<open>
  One call and one loop of two calls on the stub collaborators.
\<close>

theorem generate_single_footer_pdf_frame_witness:
  "1 < next_free w0
   \<and> heap (snd (generate_single_footer_pdf stub_env ''footer'' (Some 1) 1 2 w0)) 1
       = [(''accountName'', PStr ''Acme'')]
   \<and> heap (snd (generate_single_footer_pdf stub_env ''footer'' (Some 1) 1 2 w0)) 2
       = [(''accountName'', PStr ''Acme''), (''current_page'', PInt 1), (''total_pages'', PInt 2)]
   \<and> heap (snd (generate_footer_pdfs stub_env (Some 1) 2 w0)) 1
       = [(''accountName'', PStr ''Acme'')]"
proof -
  have h: "1 < next_free w0" by (simp add: w0_def)
  from generate_single_footer_pdf_frame
         [OF h, where env = stub_env and ft = "''footer''" and k = 1 and n = 2] h
  show ?thesis by (simp add: w0_def page_context_def)
qed

section \<open>The overlay pass\<close>

text \<open>
  Claim C3. When the overlay pass completes, the document it returns is the serialisation
  of a result document with as many pages as the main document: every main page was copied
  into it, and laying a footer over a page replaces that page and nothing else.
\<close>

theorem overlay_preserves_page_count:
  assumes "overlay_body env main_pdf_bytes footer_pdfs w = (Inr out, w')"
  shows "\<exists>main_pages result_pages.
           pdf_open env main_pdf_bytes = Inr main_pages
         \<and> pdf_save env result_pages = Inr out
         \<and> length result_pages = length main_pages
         \<and> (\<forall>j<length main_pages. \<exists>cp.
               copy_foreign_page env (main_pages ! j) = Inr cp
             \<and> result_pages ! j = overlaid env footer_pdfs j cp)
         \<and> fst (overlay_footer_pdfs_on_main_pdf env main_pdf_bytes footer_pdfs w) = Inr out"
proof -
  from assms obtain main_pages where op: "pdf_open env main_pdf_bytes = Inr main_pages"
    by (cases "pdf_open env main_pdf_bytes") (simp_all add: overlay_body_apply)
  obtain r w1 where l: "overlay_loop env footer_pdfs 0 main_pages [] w = (r, w1)"
    by fastforce
  from assms op l obtain result_pages where
    r: "r = Inr result_pages" and sv: "pdf_save env result_pages = Inr out"
    by (cases r) (simp_all add: overlay_body_apply)
  from overlay_loop_Inr [OF l [unfolded r]] have
    "length result_pages = length main_pages"
    "\<forall>j<length main_pages. \<exists>cp. copy_foreign_page env (main_pages ! j) = Inr cp
        \<and> result_pages ! j = overlaid env footer_pdfs j cp"
    by auto
  moreover have "fst (overlay_footer_pdfs_on_main_pdf env main_pdf_bytes footer_pdfs w) = Inr out"
    using assms by (simp add: overlay_apply)
  ultimately show ?thesis using op sv by blast
qed

text \<open>
  A two-page document with two footers.
\<close>

theorem overlay_preserves_page_count_witness:
  "overlay_body stub_env ''AB'' [''1'', ''2''] w0 = (Inr ''A1B2'', w0)
   \<and> (\<exists>main_pages result_pages.
         pdf_open stub_env ''AB'' = Inr main_pages
       \<and> pdf_save stub_env result_pages = Inr ''A1B2''
       \<and> length result_pages = length main_pages)"
proof -
  have h: "overlay_body stub_env ''AB'' [''1'', ''2''] w0 = (Inr ''A1B2'', w0)"
    by (simp add: overlay_body_apply bindM_apply overlay_one_run overlaid_def overlay_logs_def
        stub_env_def)
  from overlay_preserves_page_count [OF h] h show ?thesis by blast
qed

text \<open>
  Claim C4. When the main document opens and its pages can be copied, the overlay loop
  goes through every page whatever happens to the footers. A footer document that cannot
  be opened, or a merge that fails, leaves that page as copied and logs a warning; the
  following pages are treated as usual, the result has every main page, and the call
  returns bytes.
\<close>

theorem overlay_failure_isolated:
  assumes "pdf_open env main_pdf_bytes = Inr main_pages"
    and "\<forall>p\<in>set main_pages. \<exists>cp. copy_foreign_page env p = Inr cp"
  shows "\<exists>result_pages w1.
      overlay_loop env footer_pdfs 0 main_pages [] w = (Inr result_pages, w1)
    \<and> length result_pages = length main_pages
    \<and> (\<forall>j<length main_pages. \<exists>cp.
          copy_foreign_page env (main_pages ! j) = Inr cp
        \<and> (\<forall>e. j < length footer_pdfs \<and> pdf_open env (footer_pdfs ! j) = Inl e \<longrightarrow>
              result_pages ! j = cp
            \<and> LogWarning (CouldNotOverlayFooter (j + 1) e) \<in> set (trace w1))
        \<and> (\<forall>fp rest e. j < length footer_pdfs
              \<and> pdf_open env (footer_pdfs ! j) = Inr (fp # rest)
              \<and> has_add_overlay env \<and> add_overlay env cp fp = Inl e \<longrightarrow>
              result_pages ! j = cp
            \<and> LogWarning (CouldNotOverlayPageContent e) \<in> set (trace w1))
        \<and> (\<forall>fp rest p. j < length footer_pdfs
              \<and> pdf_open env (footer_pdfs ! j) = Inr (fp # rest)
              \<and> has_add_overlay env \<and> add_overlay env cp fp = Inr p \<longrightarrow>
              result_pages ! j = p))
    \<and> fst (overlay_footer_pdfs_on_main_pdf env main_pdf_bytes footer_pdfs w)
        = Inr (case pdf_save env result_pages of Inr out \<Rightarrow> out | Inl e \<Rightarrow> main_pdf_bytes)"
proof -
  from overlay_loop_total [OF assms(2)] obtain result_pages w1 where
    l: "overlay_loop env footer_pdfs 0 main_pages [] w = (Inr result_pages, w1)" by blast
  from overlay_loop_Inr [OF l] have
    len: "length result_pages = length main_pages" and
    each: "\<forall>j<length main_pages. \<exists>cp. copy_foreign_page env (main_pages ! j) = Inr cp
        \<and> result_pages ! j = overlaid env footer_pdfs j cp
        \<and> set (overlay_logs env footer_pdfs j cp) \<subseteq> set (trace w1)"
    by auto
  have pages: "\<forall>j<length main_pages. \<exists>cp.
          copy_foreign_page env (main_pages ! j) = Inr cp
        \<and> (\<forall>e. j < length footer_pdfs \<and> pdf_open env (footer_pdfs ! j) = Inl e \<longrightarrow>
              result_pages ! j = cp
            \<and> LogWarning (CouldNotOverlayFooter (j + 1) e) \<in> set (trace w1))
        \<and> (\<forall>fp rest e. j < length footer_pdfs
              \<and> pdf_open env (footer_pdfs ! j) = Inr (fp # rest)
              \<and> has_add_overlay env \<and> add_overlay env cp fp = Inl e \<longrightarrow>
              result_pages ! j = cp
            \<and> LogWarning (CouldNotOverlayPageContent e) \<in> set (trace w1))
        \<and> (\<forall>fp rest p. j < length footer_pdfs
              \<and> pdf_open env (footer_pdfs ! j) = Inr (fp # rest)
              \<and> has_add_overlay env \<and> add_overlay env cp fp = Inr p \<longrightarrow>
              result_pages ! j = p)"
  proof (intro allI impI)
    fix j assume "j < length main_pages"
    with each obtain cp where
      cp: "copy_foreign_page env (main_pages ! j) = Inr cp"
          "result_pages ! j = overlaid env footer_pdfs j cp"
          "set (overlay_logs env footer_pdfs j cp) \<subseteq> set (trace w1)"
      by blast
    have a: "\<forall>e. j < length footer_pdfs \<and> pdf_open env (footer_pdfs ! j) = Inl e \<longrightarrow>
              result_pages ! j = cp
            \<and> LogWarning (CouldNotOverlayFooter (j + 1) e) \<in> set (trace w1)"
      using cp(2,3) by (auto simp add: overlaid_def overlay_logs_def)
    have b: "\<forall>fp rest e. j < length footer_pdfs
              \<and> pdf_open env (footer_pdfs ! j) = Inr (fp # rest)
              \<and> has_add_overlay env \<and> add_overlay env cp fp = Inl e \<longrightarrow>
              result_pages ! j = cp
            \<and> LogWarning (CouldNotOverlayPageContent e) \<in> set (trace w1)"
      using cp(2,3) by (auto simp add: overlaid_def overlay_logs_def)
    have c: "\<forall>fp rest p. j < length footer_pdfs
              \<and> pdf_open env (footer_pdfs ! j) = Inr (fp # rest)
              \<and> has_add_overlay env \<and> add_overlay env cp fp = Inr p \<longrightarrow>
              result_pages ! j = p"
      using cp(2) by (auto simp add: overlaid_def)
    from cp(1) a b c
    show "\<exists>cp. copy_foreign_page env (main_pages ! j) = Inr cp
        \<and> (\<forall>e. j < length footer_pdfs \<and> pdf_open env (footer_pdfs ! j) = Inl e \<longrightarrow>
              result_pages ! j = cp
            \<and> LogWarning (CouldNotOverlayFooter (j + 1) e) \<in> set (trace w1))
        \<and> (\<forall>fp rest e. j < length footer_pdfs
              \<and> pdf_open env (footer_pdfs ! j) = Inr (fp # rest)
              \<and> has_add_overlay env \<and> add_overlay env cp fp = Inl e \<longrightarrow>
              result_pages ! j = cp
            \<and> LogWarning (CouldNotOverlayPageContent e) \<in> set (trace w1))
        \<and> (\<forall>fp rest p. j < length footer_pdfs
              \<and> pdf_open env (footer_pdfs ! j) = Inr (fp # rest)
              \<and> has_add_overlay env \<and> add_overlay env cp fp = Inr p \<longrightarrow>
              result_pages ! j = p)"
      by blast
  qed
  have final: "fst (overlay_footer_pdfs_on_main_pdf env main_pdf_bytes footer_pdfs w)
        = Inr (case pdf_save env result_pages of Inr out \<Rightarrow> out | Inl e \<Rightarrow> main_pdf_bytes)"
    using assms(1) l
    by (cases "pdf_save env result_pages") (simp_all add: overlay_apply overlay_body_apply)
  from l len pages final show ?thesis by blast
qed

text \<open>
  Three pages: the first footer is merged, the second cannot be opened, the merge of the
  third fails.
\<close>

theorem overlay_failure_isolated_witness:
  "pdf_open stub_env ''ABC'' = Inr [''A'', ''B'', ''C'']
   \<and> copy_foreign_page stub_env ''A'' = Inr ''A''
   \<and> copy_foreign_page stub_env ''B'' = Inr ''B''
   \<and> copy_foreign_page stub_env ''C'' = Inr ''C''
   \<and> pdf_open stub_env ''!'' = Inl (PdfError ''not a PDF'')
   \<and> fst (overlay_footer_pdfs_on_main_pdf stub_env ''ABC'' [''1'', ''!'', ''x''] w0)
       = Inr ''A1BC''
   \<and> (\<exists>result_pages w1.
        overlay_loop stub_env [''1'', ''!'', ''x''] 0 [''A'', ''B'', ''C''] [] w0
          = (Inr result_pages, w1)
      \<and> length result_pages = 3)"
proof -
  have h1: "pdf_open stub_env ''ABC'' = Inr [''A'', ''B'', ''C'']"
    by (simp add: stub_env_def)
  have h2: "\<forall>p\<in>set [''A'', ''B'', ''C'']. \<exists>cp. copy_foreign_page stub_env p = Inr cp"
    by (simp add: stub_env_def)
  have h3: "pdf_open stub_env ''!'' = Inl (PdfError ''not a PDF'')"
    by (simp add: stub_env_def)
  have ev: "overlay_loop stub_env [''1'', ''!'', ''x''] 0 [''A'', ''B'', ''C''] [] w0
      = (Inr [''A1'', ''B'', ''C''],
         w0\<lparr>trace := [LogWarning (CouldNotOverlayFooter 2 (PdfError ''not a PDF'')),
                       LogWarning (CouldNotOverlayPageContent (PdfError ''overlay''))]\<rparr>)"
    by (simp add: bindM_apply overlay_one_run overlaid_def overlay_logs_def stub_env_def w0_def)
  have sv: "pdf_save stub_env [''A1'', ''B'', ''C''] = Inr ''A1BC''"
    by (simp add: stub_env_def)
  have h4: "copy_foreign_page stub_env ''A'' = Inr ''A''"
       "copy_foreign_page stub_env ''B'' = Inr ''B''"
       "copy_foreign_page stub_env ''C'' = Inr ''C''"
    by (simp_all add: stub_env_def)
  from overlay_failure_isolated [OF h1 h2, of "[''1'', ''!'', ''x'']" w0] h1 h3 h4 ev sv
  show ?thesis by auto
qed

text \<open>
  Claim C5. \<^verbatim>\<open>_overlay_footer_pdfs_on_main_pdf\<close> always returns bytes. When the overlay
  pass raises, the error is logged and the bytes returned are the main document's,
  unchanged; this is the case when the main document cannot be opened, when a page cannot
  be copied into the result, and when the result cannot be serialised.
\<close>

theorem overlay_never_raises:
  "(\<exists>b w'. overlay_footer_pdfs_on_main_pdf env main_pdf_bytes footer_pdfs w = (Inr b, w'))
   \<and> (\<forall>e w1. overlay_body env main_pdf_bytes footer_pdfs w = (Inl e, w1) \<longrightarrow>
        overlay_footer_pdfs_on_main_pdf env main_pdf_bytes footer_pdfs w
          = (Inr main_pdf_bytes,
             w1\<lparr>trace := trace w1 @ [LogError (ErrorOverlayingFooterPdfs e)]\<rparr>))
   \<and> (\<forall>e. pdf_open env main_pdf_bytes = Inl e \<longrightarrow>
        fst (overlay_footer_pdfs_on_main_pdf env main_pdf_bytes footer_pdfs w)
          = Inr main_pdf_bytes)
   \<and> (\<forall>main_pages p e. pdf_open env main_pdf_bytes = Inr main_pages
          \<and> p \<in> set main_pages \<and> copy_foreign_page env p = Inl e \<longrightarrow>
        fst (overlay_footer_pdfs_on_main_pdf env main_pdf_bytes footer_pdfs w)
          = Inr main_pdf_bytes)
   \<and> (\<forall>main_pages result_pages w1 e. pdf_open env main_pdf_bytes = Inr main_pages
          \<and> overlay_loop env footer_pdfs 0 main_pages [] w = (Inr result_pages, w1)
          \<and> pdf_save env result_pages = Inl e \<longrightarrow>
        fst (overlay_footer_pdfs_on_main_pdf env main_pdf_bytes footer_pdfs w)
          = Inr main_pdf_bytes)"
proof (intro conjI allI impI)
  show "\<exists>b w'. overlay_footer_pdfs_on_main_pdf env main_pdf_bytes footer_pdfs w = (Inr b, w')"
    by (rule overlay_returns)
next
  fix e w1
  assume "overlay_body env main_pdf_bytes footer_pdfs w = (Inl e, w1)"
  then show "overlay_footer_pdfs_on_main_pdf env main_pdf_bytes footer_pdfs w
          = (Inr main_pdf_bytes,
             w1\<lparr>trace := trace w1 @ [LogError (ErrorOverlayingFooterPdfs e)]\<rparr>)"
    by (simp add: overlay_apply)
next
  fix e
  assume "pdf_open env main_pdf_bytes = Inl e"
  then show "fst (overlay_footer_pdfs_on_main_pdf env main_pdf_bytes footer_pdfs w)
          = Inr main_pdf_bytes"
    by (simp add: overlay_apply overlay_body_apply)
next
  fix main_pages p e
  assume a: "pdf_open env main_pdf_bytes = Inr main_pages
          \<and> p \<in> set main_pages \<and> copy_foreign_page env p = Inl e"
  then obtain e' w' where "overlay_loop env footer_pdfs 0 main_pages [] w = (Inl e', w')"
    using overlay_loop_Inl [of p main_pages env e footer_pdfs 0 "[]" w] by blast
  with a show "fst (overlay_footer_pdfs_on_main_pdf env main_pdf_bytes footer_pdfs w)
          = Inr main_pdf_bytes"
    by (simp add: overlay_apply overlay_body_apply)
next
  fix main_pages result_pages w1 e
  assume "pdf_open env main_pdf_bytes = Inr main_pages
          \<and> overlay_loop env footer_pdfs 0 main_pages [] w = (Inr result_pages, w1)
          \<and> pdf_save env result_pages = Inl e"
  then show "fst (overlay_footer_pdfs_on_main_pdf env main_pdf_bytes footer_pdfs w)
          = Inr main_pdf_bytes"
    by (simp add: overlay_apply overlay_body_apply)
qed

text \<open>
  The three failures on the stub collaborators.
\<close>

theorem overlay_never_raises_witness:
  "pdf_open stub_env ''!'' = Inl (PdfError ''not a PDF'')
   \<and> overlay_body stub_env ''!'' [''1''] w0 = (Inl (PdfError ''not a PDF''), w0)
   \<and> overlay_footer_pdfs_on_main_pdf stub_env ''!'' [''1''] w0
       = (Inr ''!'', w0\<lparr>trace := trace w0 @
            [LogError (ErrorOverlayingFooterPdfs (PdfError ''not a PDF''))]\<rparr>)
   \<and> fst (overlay_footer_pdfs_on_main_pdf stub_env ''!'' [''1''] w0) = Inr ''!''
   \<and> pdf_open stub_env ''AY'' = Inr [''A'', ''Y'']
   \<and> copy_foreign_page stub_env ''Y'' = Inl (PdfError ''foreign'')
   \<and> fst (overlay_footer_pdfs_on_main_pdf stub_env ''AY'' [''1''] w0) = Inr ''AY''
   \<and> pdf_open stub_env ''Z'' = Inr [''Z'']
   \<and> pdf_save stub_env [''Z''] = Inl (PdfError ''save'')
   \<and> fst (overlay_footer_pdfs_on_main_pdf stub_env ''Z'' [] w0) = Inr ''Z''"
proof -
  have h1: "pdf_open stub_env ''!'' = Inl (PdfError ''not a PDF'')"
    by (simp add: stub_env_def)
  have h2: "pdf_open stub_env ''AY'' = Inr [''A'', ''Y'']"
       "copy_foreign_page stub_env ''Y'' = Inl (PdfError ''foreign'')"
    by (simp_all add: stub_env_def)
  have h3: "pdf_open stub_env ''Z'' = Inr [''Z'']"
       "overlay_loop stub_env [] 0 [''Z''] [] w0 = (Inr [''Z''], w0)"
       "pdf_save stub_env [''Z''] = Inl (PdfError ''save'')"
    by (simp_all add: bindM_apply overlay_one_run overlaid_def overlay_logs_def stub_env_def)
  from overlay_never_raises [of stub_env "''!''" "[''1'']" w0] h1
  have a: "fst (overlay_footer_pdfs_on_main_pdf stub_env ''!'' [''1''] w0) = Inr ''!''"
    by blast
  from overlay_never_raises [of stub_env "''AY''" "[''1'']" w0] h2
  have b: "fst (overlay_footer_pdfs_on_main_pdf stub_env ''AY'' [''1''] w0) = Inr ''AY''"
    by (metis list.set_intros(1,2))
  from overlay_never_raises [of stub_env "''Z''" "[]" w0] h3
  have c: "fst (overlay_footer_pdfs_on_main_pdf stub_env ''Z'' [] w0) = Inr ''Z''"
    by blast
  have h0: "overlay_body stub_env ''!'' [''1''] w0 = (Inl (PdfError ''not a PDF''), w0)"
    by (simp add: overlay_body_apply stub_env_def)
  from overlay_never_raises [of stub_env "''!''" "[''1'']" w0] h0
  have d: "overlay_footer_pdfs_on_main_pdf stub_env ''!'' [''1''] w0
       = (Inr ''!'', w0\<lparr>trace := trace w0 @
            [LogError (ErrorOverlayingFooterPdfs (PdfError ''not a PDF''))]\<rparr>)"
    by blast
  from a b c d h0 h1 h2 h3 show ?thesis by simp
qed

text \<open>
  Claim C7. The footer documents and the main pages need not be equally many. Footers
  beyond the last main page are not used: the call does the same, call for call, without
  them. A main page beyond the last footer is copied into the result as it is. The
  divergence raises nothing.
\<close>

theorem overlay_count_divergence:
  assumes "pdf_open env main_pdf_bytes = Inr main_pages"
  shows "overlay_footer_pdfs_on_main_pdf env main_pdf_bytes footer_pdfs w
           = overlay_footer_pdfs_on_main_pdf env main_pdf_bytes
               (take (length main_pages) footer_pdfs) w
     \<and> (\<exists>b w'. overlay_footer_pdfs_on_main_pdf env main_pdf_bytes footer_pdfs w = (Inr b, w'))
     \<and> (\<forall>result_pages w1.
          overlay_loop env footer_pdfs 0 main_pages [] w = (Inr result_pages, w1) \<longrightarrow>
            length result_pages = length main_pages
          \<and> (\<forall>j. length footer_pdfs \<le> j \<and> j < length main_pages \<longrightarrow>
                copy_foreign_page env (main_pages ! j) = Inr (result_pages ! j)))"
proof (intro conjI allI impI)
  have "overlay_loop env (take (length main_pages) footer_pdfs) 0 main_pages [] w
          = overlay_loop env footer_pdfs 0 main_pages [] w"
    by (rule overlay_loop_take) simp
  then show "overlay_footer_pdfs_on_main_pdf env main_pdf_bytes footer_pdfs w
           = overlay_footer_pdfs_on_main_pdf env main_pdf_bytes
               (take (length main_pages) footer_pdfs) w"
    using assms by (simp add: overlay_apply overlay_body_apply)
next
  show "\<exists>b w'. overlay_footer_pdfs_on_main_pdf env main_pdf_bytes footer_pdfs w = (Inr b, w')"
    by (rule overlay_returns)
next
  fix result_pages w1
  assume l: "overlay_loop env footer_pdfs 0 main_pages [] w = (Inr result_pages, w1)"
  from overlay_loop_Inr [OF l] show "length result_pages = length main_pages" by auto
  fix j assume j: "length footer_pdfs \<le> j \<and> j < length main_pages"
  from overlay_loop_Inr [OF l] j obtain cp where
    "copy_foreign_page env (main_pages ! j) = Inr cp"
    "result_pages ! j = overlaid env footer_pdfs j cp" by auto
  with j show "copy_foreign_page env (main_pages ! j) = Inr (result_pages ! j)"
    by (simp add: overlaid_def)
qed

text \<open>
  Two pages with three footers, and two pages with one.
\<close>

theorem overlay_count_divergence_witness:
  "pdf_open stub_env ''AB'' = Inr [''A'', ''B'']
   \<and> overlay_footer_pdfs_on_main_pdf stub_env ''AB'' [''1'', ''2'', ''!''] w0
       = overlay_footer_pdfs_on_main_pdf stub_env ''AB'' [''1'', ''2''] w0
   \<and> overlay_loop stub_env [''1''] 0 [''A'', ''B''] [] w0 = (Inr [''A1'', ''B''], w0)
   \<and> copy_foreign_page stub_env ''B'' = Inr ''B''"
proof -
  have h: "pdf_open stub_env ''AB'' = Inr [''A'', ''B'']"
    by (simp add: stub_env_def)
  have l: "overlay_loop stub_env [''1''] 0 [''A'', ''B''] [] w0 = (Inr [''A1'', ''B''], w0)"
    by (simp add: bindM_apply overlay_one_run overlaid_def overlay_logs_def stub_env_def)
  from overlay_count_divergence [OF h, of "[''1'', ''2'', ''!'']" w0]
  have a: "overlay_footer_pdfs_on_main_pdf stub_env ''AB'' [''1'', ''2'', ''!''] w0
       = overlay_footer_pdfs_on_main_pdf stub_env ''AB'' [''1'', ''2''] w0"
    by simp
  from overlay_count_divergence [OF h, of "[''1'']" w0] l
  have b: "copy_foreign_page stub_env ([''A'', ''B''] ! 1) = Inr ([''A1'', ''B''] ! 1)"
    by auto
  from a b h l show ?thesis by simp
qed

section \<open>A first pass without pages\<close>

text \<open>
  Claim C6 as stated fails: with a first pass of no pages, the flow returns what the PDF
  library writes for the empty result document, not the bytes of the first pass.
\<close>

theorem zero_pages_not_unchanged:
  "fst (generate_pdf zero_page_env ''<html></html>'' False None w0) = Inr ''%PDF-1.7 chromium''
   \<and> get_pdf_page_count zero_page_env ''%PDF-1.7 chromium'' = Inr 0
   \<and> fst (generate_pdf_with_page_numbers zero_page_env (Some ''statement_report'') (Some 1)
            ''<html></html>'' w0) = Inr ''%PDF-1.7 qpdf''"
  by (simp add: generate_pdf_with_page_numbers_def generate_footer_pdfs_def bindM_apply
      generate_pdf_run overlay_apply overlay_body_apply zero_page_env_def stub_env_def)

text \<open>
  Claim C6, amended. When the first pass has page count 0 and the footer template loads,
  the multi-pass flow makes no footer request (no template is rendered and the first
  pass is the only request posted) and returns what the overlay pass returns for the main
  document and no footers: for a main document that opens with no pages, the
  serialisation of the empty result document, and the first-pass bytes only if that
  serialisation fails.
\<close>

theorem zero_pages_flow:
  assumes "generate_pdf env html_out False None w = (Inr main_pdf_bytes, w1)"
    and "get_pdf_page_count env main_pdf_bytes = Inr 0"
    and "get_template env (template_folder_path env @ ''/statement_footer.html'') = Inr ft"
  shows "generate_pdf_with_page_numbers env template_name template_args html_out w
           = overlay_footer_pdfs_on_main_pdf env main_pdf_bytes [] w1
     \<and> rendered_contexts
         (trace (snd (generate_pdf_with_page_numbers env template_name template_args html_out w)))
         = rendered_contexts (trace w)
     \<and> length (http_posts
         (trace (snd (generate_pdf_with_page_numbers env template_name template_args html_out w))))
         = Suc (length (http_posts (trace w)))
     \<and> (pdf_open env main_pdf_bytes = Inr [] \<longrightarrow>
          fst (generate_pdf_with_page_numbers env template_name template_args html_out w)
            = Inr (case pdf_save env [] of Inr out \<Rightarrow> out | Inl e \<Rightarrow> main_pdf_bytes))"
proof -
  have flow: "generate_pdf_with_page_numbers env template_name template_args html_out w
           = overlay_footer_pdfs_on_main_pdf env main_pdf_bytes [] w1"
    using assms
    by (simp add: generate_pdf_with_page_numbers_def generate_footer_pdfs_def bindM_apply)
  have w1: "w1 = w\<lparr>trace := trace w @ [HttpPost (gotenberg_endpoint env)
                     [(''files'', ''index.html'', html_out, ''text/html'')] []]\<rparr>"
    using assms(1) by (auto simp add: generate_pdf_run Let_def)
  have quiet: "rendered_contexts (trace (snd (overlay_footer_pdfs_on_main_pdf env main_pdf_bytes [] w1)))
                 = rendered_contexts (trace w)"
       "length (http_posts (trace (snd (overlay_footer_pdfs_on_main_pdf env main_pdf_bytes [] w1))))
                 = Suc (length (http_posts (trace w)))"
    using overlay_quiet [of env main_pdf_bytes "[]" w1] by (simp_all add: w1)
  have empty: "pdf_open env main_pdf_bytes = Inr [] \<longrightarrow>
          fst (overlay_footer_pdfs_on_main_pdf env main_pdf_bytes [] w1)
            = Inr (case pdf_save env [] of Inr out \<Rightarrow> out | Inl e \<Rightarrow> main_pdf_bytes)"
    by (cases "pdf_save env []") (simp_all add: overlay_apply overlay_body_apply)
  show ?thesis using quiet empty unfolding flow by simp
qed

text \<open>
  The flow on the renderer whose first pass has no pages.
\<close>

theorem zero_pages_flow_witness:
  "generate_pdf zero_page_env ''<html></html>'' False None w0
     = (Inr ''%PDF-1.7 chromium'',
        w0\<lparr>trace := [HttpPost ''http://localhost:3000/forms/chromium/convert/html''
                       [(''files'', ''index.html'', ''<html></html>'', ''text/html'')] []]\<rparr>)
   \<and> rendered_contexts (trace (snd (generate_pdf_with_page_numbers zero_page_env
        (Some ''statement_report'') (Some 1) ''<html></html>'' w0))) = []
   \<and> length (http_posts (trace (snd (generate_pdf_with_page_numbers zero_page_env
        (Some ''statement_report'') (Some 1) ''<html></html>'' w0)))) = 1
   \<and> fst (generate_pdf_with_page_numbers zero_page_env
        (Some ''statement_report'') (Some 1) ''<html></html>'' w0) = Inr ''%PDF-1.7 qpdf''"
proof -
  have h1: "generate_pdf zero_page_env ''<html></html>'' False None w0
     = (Inr ''%PDF-1.7 chromium'',
        w0\<lparr>trace := [HttpPost ''http://localhost:3000/forms/chromium/convert/html''
                       [(''files'', ''index.html'', ''<html></html>'', ''text/html'')] []]\<rparr>)"
    by (simp add: generate_pdf_run gotenberg_endpoint_def zero_page_env_def stub_env_def w0_def)
  have h2: "get_pdf_page_count zero_page_env ''%PDF-1.7 chromium'' = Inr 0"
    by (simp add: zero_page_env_def stub_env_def)
  have h3: "get_template zero_page_env
              (template_folder_path zero_page_env @ ''/statement_footer.html'')
            = Inr ''templates/statement_footer.html''"
    by (simp add: zero_page_env_def stub_env_def)
  have h4: "pdf_open zero_page_env ''%PDF-1.7 chromium'' = Inr []"
       "pdf_save zero_page_env [] = Inr ''%PDF-1.7 qpdf''"
    by (simp_all add: zero_page_env_def stub_env_def)
  have t: "trace w0 = []" by (simp add: w0_def)
  note z = zero_pages_flow [OF h1 h2 h3, where template_name = "Some ''statement_report''"
         and template_args = "Some 1"]
  from z [THEN conjunct2, THEN conjunct1] t
  have a: "rendered_contexts (trace (snd (generate_pdf_with_page_numbers zero_page_env
        (Some ''statement_report'') (Some 1) ''<html></html>'' w0))) = []"
    by simp
  from z [THEN conjunct2, THEN conjunct2, THEN conjunct1] t
  have b: "length (http_posts (trace (snd (generate_pdf_with_page_numbers zero_page_env
        (Some ''statement_report'') (Some 1) ''<html></html>'' w0)))) = 1"
    by simp
  from z [THEN conjunct2, THEN conjunct2, THEN conjunct2] h4
  have c: "fst (generate_pdf_with_page_numbers zero_page_env
        (Some ''statement_report'') (Some 1) ''<html></html>'' w0) = Inr ''%PDF-1.7 qpdf''"
    by simp
  from h1 a b c show ?thesis by simp
qed

end
